theory Spec2Isabelle
  imports Main "HOL-Library.Sublist"
begin

section \<open>The dockerd supervisor (app/dockerdwrapperwithcompose.c)\<close>

text \<open>
  The program starts one \<^verbatim>\<open>dockerd\<close> child, watches it from a GLib main loop and
  restarts it when one of three parameters changes. It is written in C around four
  globals (\<^verbatim>\<open>loop\<close>, \<^verbatim>\<open>exit_code\<close>, \<^verbatim>\<open>dockerd_process_pid\<close>,
  \<^verbatim>\<open>restart_dockerd\<close>); the model passes them explicitly as a record and returns the
  updated record.
  Every call into the operating system or a library (parameter store, \<^verbatim>\<open>stat\<close>,
  \<^verbatim>\<open>access\<close>, \<^verbatim>\<open>system\<close>, \<^verbatim>\<open>kill\<close>, \<^verbatim>\<open>sleep\<close>, \<^verbatim>\<open>waitpid\<close>,
  \<^verbatim>\<open>g_spawn_async\<close>) is answered by a record of oracles, the \<open>world\<close>, and every
  effect of such a call is appended to a trace kept in the state, in program order.
  Memory management (\<^verbatim>\<open>free\<close>, \<^verbatim>\<open>g_clear_error\<close>, \<^verbatim>\<open>strdup\<close> failing) is not
  modelled.
\<close>

subsection \<open>Data\<close>

datatype signal = SIGINT | SIGTERM | SIGQUIT | SIGKILL | SIGCHLD | SIGHUP

datatype priority = LOG_ERR | LOG_WARNING | LOG_INFO

text \<open>
  A \<^verbatim>\<open>syslog\<close> line is kept as its format string and its arguments. \<open>ErrorMessage\<close>
  stands for the text of a \<^verbatim>\<open>GError\<close> or of \<^verbatim>\<open>strerror(errno)\<close>, which the
  library chooses.
\<close>

datatype log_arg = Str string | Num int | ErrorMessage

datatype access_mode = F_OK | W_OK

text \<open>
  The calls the trace records. \<open>Spawn\<close> is a call of \<^verbatim>\<open>g_spawn_async\<close> with its
  argument vector and \<open>Kill\<close> a call of \<^verbatim>\<open>kill\<close>, whether or not the call succeeds;
  \<open>Slept\<close> is a call of \<^verbatim>\<open>sleep\<close> with the seconds it lasted.
\<close>

datatype effect =
    Openlog
  | Syslog priority string "log_arg list"
  | Sigaction signal
  | System string
  | Spawn "string list"
  | ChildWatchAdd int
  | Kill int signal
  | Slept nat
  | ClosePid int
  | Remove string
  | RegisterCallback string
  | UnregisterCallback string

text \<open>
  How the call \<^verbatim>\<open>sleep(10)\<close> of \<^verbatim>\<open>stop_dockerd\<close> ends: the ten seconds pass, or a
  signal is delivered after \<open>t\<close> seconds and \<^verbatim>\<open>sleep\<close> returns once its handler has run
  (\<^verbatim>\<open>SIGCHLD\<close> of the exiting child is such a signal). The exit callback is not among
  the outcomes. \<^verbatim>\<open>start_dockerd\<close> registers it with \<^verbatim>\<open>g_child_watch_add\<close>, as a source
  of the main loop, and only an iteration of the loop dispatches a source;
  \<^verbatim>\<open>stop_dockerd\<close> runs inside a handler the loop has dispatched, or after
  \<^verbatim>\<open>g_main_loop_run\<close> has returned, and does not iterate the loop. The comment above the
  call (\<^verbatim>\<open>The sleep will be interrupted when the dockerd_process_callback arrives\<close>)
  says otherwise; the model follows the calls, not the comment.
\<close>

datatype wait_outcome = Elapsed | SignalAfter nat signal

record world =
  ax_parameter_new_ok :: bool
  ax_parameter_get :: "string \<Rightarrow> string option"
  system_status :: "string \<Rightarrow> int"
  stat_dev :: "string \<Rightarrow> nat option"
  proc_mounts :: "(string \<times> string) list option"
  access_status :: "string \<Rightarrow> access_mode \<Rightarrow> int"
  spawn_async :: "string list \<Rightarrow> int option"
  waitpid_nohang :: "int \<Rightarrow> int"
  kill_status :: "int \<Rightarrow> signal \<Rightarrow> int"
  sleep_outcome :: wait_outcome
  spawn_check_exit_status :: "int \<Rightarrow> bool"
  register_callback_ok :: "string \<Rightarrow> bool"

text \<open>\<^verbatim>\<open>struct settings\<close>; a \<^verbatim>\<open>NULL\<close> \<^verbatim>\<open>data_root\<close> is \<open>None\<close>.\<close>

record settings =
  data_root :: "string option"
  use_tls :: bool
  use_ipc_socket :: bool

text \<open>
  The globals \<^verbatim>\<open>exit_code\<close>, \<^verbatim>\<open>dockerd_process_pid\<close> (\<open>-1\<close> when no child is
  tracked) and \<^verbatim>\<open>restart_dockerd\<close>; \<open>loop_quit\<close> holds whether
  \<^verbatim>\<open>g_main_loop_quit(loop)\<close> has been called; \<open>trace\<close> is the list of effects so far.
\<close>

record state =
  exit_code :: int
  dockerd_process_pid :: int
  restart_dockerd :: bool
  loop_quit :: bool
  trace :: "effect list"

text \<open>
  Where the C program would leave defined behaviour, or where \<^verbatim>\<open>main\<close> would not
  return, the model returns a fault instead of a result.
\<close>

datatype fault = Buffer_Overrun | Name_Too_Short | Loop_Blocked

definition emit :: "effect \<Rightarrow> state \<Rightarrow> state" where
  "emit e s = s\<lparr>trace := trace s @ [e]\<rparr>"

definition syslog :: "priority \<Rightarrow> string \<Rightarrow> log_arg list \<Rightarrow> state \<Rightarrow> state" where
  "syslog p fmt as s = emit (Syslog p fmt as) s"

definition g_main_loop_quit :: "state \<Rightarrow> state" where
  "g_main_loop_quit s = s\<lparr>loop_quit := True\<rparr>"

definition dockerd_path_on_sd_card :: string where
  "dockerd_path_on_sd_card = ''/var/spool/storage/SD_DISK/dockerd''"

definition ax_parameters :: "string list" where
  "ax_parameters = [''IPCSocket'', ''SDCardSupport'', ''UseTLS'']"

definition tls_cert_path :: string where
  "tls_cert_path = ''/usr/local/packages/dockerdwrapperwithcompose/''"

definition tls_certs :: "string list" where
  "tls_certs = [''ca.pem'', ''server-cert.pem'', ''server-key.pem'']"

subsection \<open>Signals\<close>

definition handle_signals :: "signal \<Rightarrow> state \<Rightarrow> state" where
  "handle_signals signal_num s =
     (case signal_num of
        SIGINT \<Rightarrow> g_main_loop_quit s
      | SIGTERM \<Rightarrow> g_main_loop_quit s
      | SIGQUIT \<Rightarrow> g_main_loop_quit s
      | _ \<Rightarrow> s)"

definition init_signals :: "state \<Rightarrow> state" where
  "init_signals s = emit (Sigaction SIGQUIT) (emit (Sigaction SIGTERM) (emit (Sigaction SIGINT) s))"

definition is_process_alive :: "world \<Rightarrow> int \<Rightarrow> state \<Rightarrow> bool" where
  "is_process_alive w pid s =
     (let return_pid = waitpid_nohang w pid in
      if return_pid = -1 then False
      else if return_pid = dockerd_process_pid s then False
      else True)"

subsection \<open>Reading and checking the settings\<close>

definition get_parameter_value :: "world \<Rightarrow> string \<Rightarrow> state \<Rightarrow> string option \<times> state" where
  "get_parameter_value w parameter_name s =
     (if \<not> ax_parameter_new_ok w
      then (None, syslog LOG_ERR ''Error when creating axparameter: %s'' [ErrorMessage] s)
      else case ax_parameter_get w parameter_name of
        None \<Rightarrow>
          (None, syslog LOG_ERR ''Failed to fetch parameter value of %s. Error: %s''
                   [Str parameter_name, ErrorMessage] s)
      | Some parameter_value \<Rightarrow> (Some parameter_value, s))"

fun find_mount :: "world \<Rightarrow> nat \<Rightarrow> (string \<times> string) list \<Rightarrow> string option" where
  "find_mount w dev [] = None"
| "find_mount w dev ((mnt_dir, mnt_type) # mnts) =
     (case stat_dev w mnt_dir of
        None \<Rightarrow> find_mount w dev mnts
      | Some d \<Rightarrow> if d = dev then Some mnt_type else find_mount w dev mnts)"

definition get_filesystem_of_path :: "world \<Rightarrow> string \<Rightarrow> state \<Rightarrow> string option \<times> state" where
  "get_filesystem_of_path w path s =
     (case stat_dev w path of
        None \<Rightarrow>
          (None, syslog LOG_ERR ''Cannot store data on the SD card, no storage exists at %s''
                   [Str path] s)
      | Some dev \<Rightarrow>
          (case proc_mounts w of
             None \<Rightarrow> (None, s)
           | Some mnts \<Rightarrow> (find_mount w dev mnts, s)))"

definition setup_sdcard :: "world \<Rightarrow> string \<Rightarrow> state \<Rightarrow> bool \<times> state" where
  "setup_sdcard w droot s =
     (let create_droot_command = ''mkdir -p '' @ droot;
          res = system_status w create_droot_command;
          s1 = emit (System create_droot_command) s
      in if res \<noteq> 0
         then (False, syslog LOG_ERR ''Failed to create data_root folder at: %s. Error code: %d''
                        [Str droot, Num res] s1)
         else
           let (sd_file_system, s2) = get_filesystem_of_path w droot s1
           in case sd_file_system of
                None \<Rightarrow>
                  (False, syslog LOG_ERR ''Couldn't identify the file system of the SD card at %s''
                            [Str droot] s2)
              | Some fs \<Rightarrow>
                  if fs = ''vfat'' \<or> fs = ''exfat''
                  then (False, syslog LOG_ERR
                          (''The SD card at %s uses file system %s which does not support '' @
                           ''Unix file permissions. Please reformat to a file system that '' @
                           ''support Unix file permissions, such as ext4 or xfs.'')
                          [Str droot, Str fs] s2)
                  else if access_status w droot F_OK = 0 \<and> access_status w droot W_OK \<noteq> 0
                  then (False, syslog LOG_ERR
                          (''The application user does not have write permissions to the SD '' @
                           ''card directory at %s. Please change the directory permissions or '' @
                           ''remove the directory.'')
                          [Str droot] s2)
                  else (True, s2))"

definition is_parameter_yes :: "world \<Rightarrow> string \<Rightarrow> state \<Rightarrow> bool \<times> state" where
  "is_parameter_yes w name s =
     (let (v, s1) = get_parameter_value w name s in (v = Some ''yes'', s1))"

definition get_and_verify_sd_card_selection ::
  "world \<Rightarrow> settings \<Rightarrow> state \<Rightarrow> bool \<times> settings \<times> state" where
  "get_and_verify_sd_card_selection w st s =
     (let (yes, s1) = is_parameter_yes w ''SDCardSupport'' s
      in if yes
         then
           let droot = dockerd_path_on_sd_card @ ''/data'';
               st1 = st\<lparr>data_root := Some droot\<rparr>;
               (ok, s2) = setup_sdcard w droot s1
           in if \<not> ok then (False, st1, syslog LOG_ERR ''Failed to setup SD card.'' [] s2)
              else (True, st1, s2)
         else (True, st\<lparr>data_root := None\<rparr>, s1))"

definition get_and_verify_tls_selection ::
  "world \<Rightarrow> settings \<Rightarrow> state \<Rightarrow> bool \<times> settings \<times> state" where
  "get_and_verify_tls_selection w st s =
     (let (tls, s1) = is_parameter_yes w ''UseTLS'' s
      in if tls
         then
           let ca_path = tls_cert_path @ tls_certs ! 0;
               cert_path = tls_cert_path @ tls_certs ! 1;
               key_path = tls_cert_path @ tls_certs ! 2;
               ca_exists = (access_status w ca_path F_OK = 0);
               cert_exists = (access_status w cert_path F_OK = 0);
               key_exists = (access_status w key_path F_OK = 0);
               s2 = (if \<not> ca_exists \<or> \<not> cert_exists \<or> \<not> key_exists
                     then syslog LOG_ERR ''One or more TLS certificates missing.'' [] s1
                     else s1);
               s3 = (if \<not> ca_exists
                     then syslog LOG_ERR ''Cannot start using TLS, no CA certificate found at %s''
                            [Str ca_path] s2
                     else s2);
               s4 = (if \<not> cert_exists
                     then syslog LOG_ERR
                            ''Cannot start using TLS, no server certificate found at %s''
                            [Str cert_path] s3
                     else s3);
               s5 = (if \<not> key_exists
                     then syslog LOG_ERR ''Cannot start using TLS, no server key found at %s''
                            [Str key_path] s4
                     else s4)
           in if \<not> ca_exists \<or> \<not> cert_exists \<or> \<not> key_exists
              then (False, st, s5)
              else (True, st\<lparr>use_tls := tls\<rparr>, s5)
         else (True, st\<lparr>use_tls := tls\<rparr>, s1))"

definition get_ipc_socket_selection ::
  "world \<Rightarrow> settings \<Rightarrow> state \<Rightarrow> bool \<times> settings \<times> state" where
  "get_ipc_socket_selection w st s =
     (let (ipc, s1) = is_parameter_yes w ''IPCSocket'' s
      in (True, st\<lparr>use_ipc_socket := ipc\<rparr>, s1))"

definition read_settings :: "world \<Rightarrow> settings \<Rightarrow> state \<Rightarrow> bool \<times> settings \<times> state" where
  "read_settings w st s =
     (let (ok1, st1, s1) = get_and_verify_sd_card_selection w st s
      in if \<not> ok1 then (False, st1, syslog LOG_ERR ''Failed to setup sd_card'' [] s1)
         else
           let (ok2, st2, s2) = get_and_verify_tls_selection w st1 s1
           in if \<not> ok2 then (False, st2, syslog LOG_ERR ''Failed to verify tls selection'' [] s2)
              else
                let (ok3, st3, s3) = get_ipc_socket_selection w st2 s2
                in if \<not> ok3
                   then (False, st3, syslog LOG_ERR ''Failed to get ipc socket selection'' [] s3)
                   else (True, st3, s3))"

subsection \<open>Launching the daemon\<close>

text \<open>
  \<^verbatim>\<open>start_dockerd\<close> builds the command line in \<^verbatim>\<open>gchar args[1024]\<close> with
  \<^verbatim>\<open>g_snprintf(args + args_offset, args_len - args_offset, ...)\<close> and adds what the
  call returns to \<^verbatim>\<open>args_offset\<close>. \<^verbatim>\<open>g_snprintf\<close> writes at most \<open>size - 1\<close>
  characters and returns the length of the whole formatted text. Once \<^verbatim>\<open>args_offset\<close>
  has passed \<^verbatim>\<open>args_len\<close>, the next call gets a pointer behind the array and a size
  that has wrapped around: the model stops with \<open>Buffer_Overrun\<close>. The pair is the
  text in the buffer and \<^verbatim>\<open>args_offset\<close>.
\<close>

definition args_len :: nat where
  "args_len = 1024"

definition msg_len :: nat where
  "msg_len = 128"

definition g_snprintf_at :: "string \<times> nat \<Rightarrow> string \<Rightarrow> fault + string \<times> nat" where
  "g_snprintf_at b out =
     (case b of (args, args_offset) \<Rightarrow>
        if args_len < args_offset then Inl Buffer_Overrun
        else Inr (if args_offset = args_len then args
                  else take args_offset args @ take (args_len - args_offset - 1) out,
                  args_offset + length out))"

definition g_strlcpy :: "string \<Rightarrow> nat \<Rightarrow> string" where
  "g_strlcpy src n = take (n - 1) src"

definition g_strlcat :: "string \<Rightarrow> string \<Rightarrow> nat \<Rightarrow> string" where
  "g_strlcat dst src n = dst @ take (n - 1 - length dst) src"

text \<open>\<^verbatim>\<open>g_strsplit(args, " ", 0)\<close>: every delimiter ends a field; the empty text has no field.\<close>

fun split_fields :: "char \<Rightarrow> string \<Rightarrow> string list" where
  "split_fields d [] = [[]]"
| "split_fields d (c # cs) =
     (if c = d then [] # split_fields d cs
      else case split_fields d cs of
             [] \<Rightarrow> [[c]]
           | f # fs \<Rightarrow> (c # f) # fs)"

definition g_strsplit :: "string \<Rightarrow> char \<Rightarrow> string list" where
  "g_strsplit str d = (if str = [] then [] else split_fields d str)"

definition dockerd_args_buffer :: "settings \<Rightarrow> fault + string \<times> nat" where
  "dockerd_args_buffer st =
     (case g_snprintf_at ([], 0)
             (''dockerd'' @ '' '' @
              ''--config-file /usr/local/packages/dockerdwrapperwithcompose/localdata/daemon.json'')
      of Inl f \<Rightarrow> Inl f
       | Inr b1 \<Rightarrow>
      (case (if use_tls st
             then g_snprintf_at b1
                    ('' '' @ ''-H tcp://0.0.0.0:2376'' @ '' '' @ ''--tlsverify'' @ '' '' @
                     ''--tlscacert'' @ '' '' @
                     ''/usr/local/packages/dockerdwrapperwithcompose/ca.pem'' @ '' '' @
                     ''--tlscert'' @ '' '' @
                     ''/usr/local/packages/dockerdwrapperwithcompose/server-cert.pem'' @ '' '' @
                     ''--tlskey'' @ '' '' @
                     ''/usr/local/packages/dockerdwrapperwithcompose/server-key.pem'')
             else g_snprintf_at b1 ('' '' @ ''-H tcp://0.0.0.0:2375'' @ '' '' @ ''--tls=false''))
       of Inl f \<Rightarrow> Inl f
        | Inr b2 \<Rightarrow>
      (case (case data_root st of
               Some droot \<Rightarrow> g_snprintf_at b2 ('' --data-root '' @ droot)
             | None \<Rightarrow> Inr b2)
       of Inl f \<Rightarrow> Inl f
        | Inr b3 \<Rightarrow>
           if use_ipc_socket st then g_snprintf_at b3 '' -H unix:///var/run/docker.sock''
           else Inr b3)))"

definition dockerd_args :: "settings \<Rightarrow> fault + string list" where
  "dockerd_args st =
     (case dockerd_args_buffer st of
        Inl f \<Rightarrow> Inl f
      | Inr (args, args_offset) \<Rightarrow> Inr (g_strsplit args (CHR '' '')))"

definition startup_msg :: "settings \<Rightarrow> string" where
  "startup_msg st =
     (let msg = g_strlcpy ''Starting dockerd'' msg_len;
          msg = (if use_tls st then g_strlcat msg '' in TLS mode'' msg_len
                 else g_strlcat msg '' in unsecured mode'' msg_len);
          data_root_msg =
            '' using '' @ (case data_root st of Some droot \<Rightarrow> droot | None \<Rightarrow> ''/var/lib/docker'') @
            '' as storage'';
          msg = g_strlcat msg data_root_msg msg_len
      in if use_ipc_socket st then g_strlcat msg '' with IPC socket.'' msg_len
         else g_strlcat msg '' without IPC socket.'' msg_len)"

definition start_dockerd :: "world \<Rightarrow> settings \<Rightarrow> state \<Rightarrow> fault + bool \<times> state" where
  "start_dockerd w st s =
     (case dockerd_args st of
        Inl f \<Rightarrow> Inl f
      | Inr args_split \<Rightarrow>
          let s1 = syslog LOG_INFO ''%s'' [Str (startup_msg st)] s;
              s2 = emit (Spawn args_split) s1
          in (case spawn_async w args_split of
               None \<Rightarrow>
                 Inr (False,
                      syslog LOG_ERR ''Starting dockerd failed: execv returned: %d, error: %s''
                        [Num 0, ErrorMessage] s2)
             | Some pid \<Rightarrow>
                 let s3 = emit (ChildWatchAdd pid) (s2\<lparr>dockerd_process_pid := pid\<rparr>)
                 in if \<not> is_process_alive w (dockerd_process_pid s3) s3
                    then Inr (False,
                              g_main_loop_quit
                                ((syslog LOG_ERR
                                    ''Starting dockerd failed: Process died unexpectedly during startup''
                                    [] s3)\<lparr>exit_code := -1\<rparr>))
                    else Inr (True, s3)))"

definition read_settings_and_start_dockerd :: "world \<Rightarrow> state \<Rightarrow> fault + bool \<times> state" where
  "read_settings_and_start_dockerd w s =
     (let st0 = \<lparr>data_root = None, use_tls = False, use_ipc_socket = False\<rparr>;
          (ok, st, s1) = read_settings w st0 s
      in if \<not> ok then Inr (False, s1) else start_dockerd w st s1)"

subsection \<open>The exit callback, stopping, and the parameter callback\<close>

definition dockerd_process_exited_callback ::
  "world \<Rightarrow> int \<Rightarrow> int \<Rightarrow> state \<Rightarrow> fault + state" where
  "dockerd_process_exited_callback w pid status s =
     (let s1 = (if \<not> spawn_check_exit_status w status
                then (syslog LOG_ERR ''Dockerd process exited with error: %d'' [Num status] s)
                       \<lparr>exit_code := -1\<rparr>
                else s);
          s2 = emit (ClosePid pid) (s1\<lparr>dockerd_process_pid := -1\<rparr>);
          s3 = emit (Remove ''/var/run/docker.pid'') s2
      in if restart_dockerd s3
         then
           (case read_settings_and_start_dockerd w (s3\<lparr>restart_dockerd := False\<rparr>) of
              Inl f \<Rightarrow> Inl f
            | Inr (ok, s4) \<Rightarrow>
                if \<not> ok then Inr (g_main_loop_quit (s4\<lparr>exit_code := -1\<rparr>)) else Inr s4)
         else Inr (g_main_loop_quit s3))"

text \<open>
  \<^verbatim>\<open>sleep(seconds)\<close> as \<^verbatim>\<open>stop_dockerd\<close> uses it: it returns when the time has
  passed or when the handler of a signal has run. The handler of \<^verbatim>\<open>SIGINT\<close>,
  \<^verbatim>\<open>SIGTERM\<close> and \<^verbatim>\<open>SIGQUIT\<close> is \<open>handle_signals\<close>; the handler of any other
  signal is not this program's and leaves the globals as they are, which is also what
  \<open>handle_signals\<close> does with such a signal.
\<close>

definition sleep :: "world \<Rightarrow> nat \<Rightarrow> state \<Rightarrow> state" where
  "sleep w seconds s =
     (case sleep_outcome w of
        Elapsed \<Rightarrow> emit (Slept seconds) s
      | SignalAfter t signal_num \<Rightarrow>
          if t < seconds then handle_signals signal_num (emit (Slept t) s)
          else emit (Slept seconds) s)"

definition stop_dockerd :: "world \<Rightarrow> state \<Rightarrow> fault + bool \<times> state" where
  "stop_dockerd w s =
     (if dockerd_process_pid s = -1 then Inr (True, s)
      else
        let sigterm_successfully_sent = (kill_status w (dockerd_process_pid s) SIGTERM = 0);
            s1 = emit (Kill (dockerd_process_pid s) SIGTERM) s;
            s2 = (if \<not> sigterm_successfully_sent
                  then syslog LOG_ERR ''Failed to send SIGTERM to child. Error: %s''
                         [ErrorMessage] s1
                  else s1);
            s3 = sleep w 10 s2
        in if dockerd_process_pid s3 = -1 then Inr (True, s3)
           else
             let killed = (kill_status w (dockerd_process_pid s3) SIGKILL = 0);
                 s4 = emit (Kill (dockerd_process_pid s3) SIGKILL) s3
             in Inr (killed,
                     if \<not> killed
                     then syslog LOG_ERR ''Failed to send SIGKILL to child. Error: %s''
                            [ErrorMessage] s4
                     else s4))"

text \<open>
  \<^verbatim>\<open>name += strlen("root.dockerdwrapperwithcompose.")\<close> moves the pointer without
  looking at the text: a shorter name leaves the pointer behind its end. \<open>note_changed\<close>
  is the body of the loop over \<^verbatim>\<open>ax_parameters\<close> and \<open>note_changes\<close> the loop.
\<close>

definition note_changed :: "string \<Rightarrow> string \<Rightarrow> string \<Rightarrow> state \<Rightarrow> state" where
  "note_changed parname val p s =
     (if parname = p
      then (syslog LOG_INFO ''%s changed to: %s'' [Str p, Str val] s)\<lparr>restart_dockerd := True\<rparr>
      else s)"

definition note_changes :: "string \<Rightarrow> string \<Rightarrow> state \<Rightarrow> state" where
  "note_changes parname val s = fold (note_changed parname val) ax_parameters s"

definition parameter_changed_callback ::
  "world \<Rightarrow> string \<Rightarrow> string \<Rightarrow> state \<Rightarrow> fault + state" where
  "parameter_changed_callback w name val s =
     (if length name < length ''root.dockerdwrapperwithcompose.'' then Inl Name_Too_Short
      else
        let parname = drop (length ''root.dockerdwrapperwithcompose.'') name;
            s1 = note_changes parname val s
        in case stop_dockerd w s1 of
             Inl f \<Rightarrow> Inl f
           | Inr (stopped, s2) \<Rightarrow>
               if \<not> stopped
               then Inr ((syslog LOG_ERR
                            (''Failed to stop dockerd process. Please restart the acap '' @
                             ''manually.'') [] s2)\<lparr>exit_code := -1\<rparr>)
               else Inr s2)"

subsection \<open>The main program\<close>

fun register_callbacks :: "world \<Rightarrow> string list \<Rightarrow> state \<Rightarrow> bool \<times> state" where
  "register_callbacks w [] s = (True, s)"
| "register_callbacks w (p # ps) s =
     (let parameter_path = ''root.dockerdwrapperwithcompose'' @ ''.'' @ p;
          s1 = emit (RegisterCallback parameter_path) s
      in if \<not> register_callback_ok w parameter_path
         then (False, syslog LOG_ERR ''Could not register %s callback. Error: %s''
                        [Str p, ErrorMessage] s1)
         else register_callbacks w ps s1)"

definition setup_axparameter :: "world \<Rightarrow> state \<Rightarrow> bool \<times> state" where
  "setup_axparameter w s =
     (if \<not> ax_parameter_new_ok w
      then (False, syslog LOG_ERR ''Error when creating AXParameter: %s'' [ErrorMessage] s)
      else register_callbacks w ax_parameters s)"

text \<open>
  What the main loop dispatches: the exit of the watched child, a change of a
  parameter, or a signal. Each event comes with the world its handler runs in. The loop
  returns after the first handler that has called \<^verbatim>\<open>g_main_loop_quit\<close>; when the
  events run out first, it blocks and \<^verbatim>\<open>main\<close> does not return.
\<close>

datatype event = ChildExited int int | ParameterChanged string string | SignalReceived signal

definition dispatch :: "world \<Rightarrow> event \<Rightarrow> state \<Rightarrow> fault + state" where
  "dispatch w ev s =
     (case ev of
        ChildExited pid status \<Rightarrow> dockerd_process_exited_callback w pid status s
      | ParameterChanged name val \<Rightarrow> parameter_changed_callback w name val s
      | SignalReceived signal_num \<Rightarrow> Inr (handle_signals signal_num s))"

fun main_loop_iterate :: "(event \<times> world) list \<Rightarrow> state \<Rightarrow> fault + state" where
  "main_loop_iterate [] s = Inl Loop_Blocked"
| "main_loop_iterate ((ev, w) # evs) s =
     (case dispatch w ev s of
        Inl f \<Rightarrow> Inl f
      | Inr s1 \<Rightarrow> if loop_quit s1 then Inr s1 else main_loop_iterate evs s1)"

definition g_main_loop_run :: "(event \<times> world) list \<Rightarrow> state \<Rightarrow> fault + state" where
  "g_main_loop_run evs s = main_loop_iterate evs (s\<lparr>loop_quit := False\<rparr>)"

definition initial_state :: state where
  "initial_state =
     \<lparr>exit_code = 0, dockerd_process_pid = -1, restart_dockerd = False, loop_quit = False,
      trace = []\<rparr>"

definition unregister_callbacks :: "state \<Rightarrow> state" where
  "unregister_callbacks s =
     fold (\<lambda>p. emit (UnregisterCallback (''root.dockerdwrapperwithcompose'' @ ''.'' @ p)))
       ax_parameters s"

text \<open>The part of \<^verbatim>\<open>main\<close> from the label \<^verbatim>\<open>end\<close> on.\<close>

definition main_end :: "world \<Rightarrow> bool \<Rightarrow> state \<Rightarrow> fault + int \<times> state" where
  "main_end w have_ax_parameter s =
     (case stop_dockerd w s of
        Inl f \<Rightarrow> Inl f
      | Inr (stopped, s1) \<Rightarrow>
          let s2 = (if stopped
                    then syslog LOG_INFO ''Shutting down. dockerd shut down successfully.'' [] s1
                    else syslog LOG_WARNING ''Shutting down. Failed to shut down dockerd.'' [] s1);
              s3 = (if have_ax_parameter then unregister_callbacks s2 else s2)
          in Inr (exit_code s3, s3))"

definition main_start :: "world \<Rightarrow> state" where
  "main_start w =
     init_signals (syslog LOG_INFO ''Started logging.'' [] (emit Openlog (initial_state\<lparr>exit_code := 0\<rparr>)))"

definition main ::
  "world \<Rightarrow> (event \<times> world) list \<Rightarrow> world \<Rightarrow> fault + int \<times> state" where
  "main w evs w_end =
     (let (have_ax_parameter, s1) = setup_axparameter w (main_start w)
      in if \<not> have_ax_parameter
         then main_end w_end False
                ((syslog LOG_ERR ''Error in setup_axparameter'' [] s1)\<lparr>exit_code := -1\<rparr>)
         else
           (case read_settings_and_start_dockerd w s1 of
              Inl f \<Rightarrow> Inl f
            | Inr (started, s2) \<Rightarrow>
                if \<not> started then main_end w_end True (s2\<lparr>exit_code := -1\<rparr>)
                else
                  (case g_main_loop_run evs s2 of
                     Inl f \<Rightarrow> Inl f
                   | Inr s3 \<Rightarrow> main_end w_end True s3)))"

subsection \<open>Stopping more than once\<close>

text \<open>\<^verbatim>\<open>stop_dockerd\<close> called once in each of the worlds, one call after the other.\<close>

fun stop_repeatedly :: "world list \<Rightarrow> state \<Rightarrow> fault + bool list \<times> state" where
  "stop_repeatedly [] s = Inr ([], s)"
| "stop_repeatedly (w # ws) s =
     (case stop_dockerd w s of
        Inl f \<Rightarrow> Inl f
      | Inr (ok, s1) \<Rightarrow>
          (case stop_repeatedly ws s1 of
             Inl f \<Rightarrow> Inl f
           | Inr (oks, s2) \<Rightarrow> Inr (ok # oks, s2)))"

text \<open>How long \<open>sleep w seconds\<close> lasts.\<close>

definition time_slept :: "world \<Rightarrow> nat \<Rightarrow> nat" where
  "time_slept w seconds =
     (case sleep_outcome w of
        Elapsed \<Rightarrow> seconds
      | SignalAfter t signal_num \<Rightarrow> if t < seconds then t else seconds)"

subsection \<open>A concrete world and a concrete state\<close>

text \<open>
  A world in which every call succeeds, every parameter is \<^verbatim>\<open>no\<close>, the spawned child
  gets pid 100 and nothing interrupts a wait; and the state in which that child is tracked.
\<close>

definition example_world :: world where
  "example_world =
     \<lparr>ax_parameter_new_ok = True,
      ax_parameter_get = (\<lambda>name. Some ''no''),
      system_status = (\<lambda>cmd. 0),
      stat_dev = (\<lambda>path. Some 1),
      proc_mounts = Some [(''/var/spool/storage/SD_DISK'', ''ext4'')],
      access_status = (\<lambda>path mode. 0),
      spawn_async = (\<lambda>args. Some 100),
      waitpid_nohang = (\<lambda>pid. 0),
      kill_status = (\<lambda>pid sig. 0),
      sleep_outcome = Elapsed,
      spawn_check_exit_status = (\<lambda>status. status = 0),
      register_callback_ok = (\<lambda>path. True)\<rparr>"

definition running_state :: state where
  "running_state = initial_state\<lparr>dockerd_process_pid := 100\<rparr>"

definition unkillable_world :: world where
  "unkillable_world = example_world\<lparr>kill_status := (\<lambda>pid sig. -1)\<rparr>"

text \<open>
  The world in which \<^verbatim>\<open>SIGCHLD\<close> arrives three seconds into a wait, and the world in
  which the next child gets pid 200.
\<close>

definition child_exits_world :: world where
  "child_exits_world = example_world\<lparr>sleep_outcome := SignalAfter 3 SIGCHLD\<rparr>"

definition respawn_world :: world where
  "respawn_world = example_world\<lparr>spawn_async := (\<lambda>args. Some 200)\<rparr>"

text \<open>
  A run of the loop: \<^verbatim>\<open>UseTLS\<close> changes while no \<^verbatim>\<open>kill\<close> succeeds, then
  \<^verbatim>\<open>SIGTERM\<close> arrives.
\<close>

definition example_events :: "(event \<times> world) list" where
  "example_events =
     [(ParameterChanged ''root.dockerdwrapperwithcompose.UseTLS'' ''yes'', unkillable_world),
      (SignalReceived SIGTERM, example_world)]"

subsection \<open>The states of a run\<close>

text \<open>
  The states after each step of \<open>main\<close>, in order: after the start, after
  \<open>setup_axparameter\<close>, after \<open>read_settings_and_start_dockerd\<close> (with the assignment
  that follows its failure), after each handler the loop dispatches, and after the part
  from the label \<^verbatim>\<open>end\<close> on. It follows \<open>main\<close> branch by branch.
\<close>

fun loop_states :: "(event \<times> world) list \<Rightarrow> state \<Rightarrow> state list" where
  "loop_states [] s = []"
| "loop_states ((ev, w) # evs) s =
     (case dispatch w ev s of
        Inl f \<Rightarrow> []
      | Inr s1 \<Rightarrow> s1 # (if loop_quit s1 then [] else loop_states evs s1))"

definition end_states :: "world \<Rightarrow> bool \<Rightarrow> state \<Rightarrow> state list" where
  "end_states w have_ax_parameter s =
     (case main_end w have_ax_parameter s of
        Inl f \<Rightarrow> []
      | Inr (r, s1) \<Rightarrow> [s1])"

definition main_states :: "world \<Rightarrow> (event \<times> world) list \<Rightarrow> world \<Rightarrow> state list" where
  "main_states w evs w_end =
     (let s0 = main_start w;
          (have_ax_parameter, s1) = setup_axparameter w s0
      in if \<not> have_ax_parameter
         then
           (let s2 = (syslog LOG_ERR ''Error in setup_axparameter'' [] s1)\<lparr>exit_code := -1\<rparr>
            in [s0, s2] @ end_states w_end False s2)
         else
           (case read_settings_and_start_dockerd w s1 of
              Inl f \<Rightarrow> [s0, s1]
            | Inr (started, s2) \<Rightarrow>
                if \<not> started
                then [s0, s1, s2\<lparr>exit_code := -1\<rparr>] @ end_states w_end True (s2\<lparr>exit_code := -1\<rparr>)
                else [s0, s1, s2] @ loop_states evs (s2\<lparr>loop_quit := False\<rparr>) @
                     (case g_main_loop_run evs s2 of
                        Inl f \<Rightarrow> []
                      | Inr s3 \<Rightarrow> end_states w_end True s3)))"

text \<open>Each exit code of the list is the one before it (\<open>c\<close> for the first) or \<open>-1\<close>.\<close>

fun exit_code_chain :: "int \<Rightarrow> state list \<Rightarrow> bool" where
  "exit_code_chain c [] = True"
| "exit_code_chain c (s # ss) =
     ((exit_code s = c \<or> exit_code s = -1) \<and> exit_code_chain (exit_code s) ss)"

subsection \<open>The argument vector as the specification words it\<close>

text \<open>
  The specification of the launcher: the base command and the fixed config-file flag;
  then the TCP bind address with the TLS flags, or the plain one with TLS disabled; then
  \<^verbatim>\<open>--data-root\<close> and the path only if \<open>data_root\<close> is set; then the unix-socket
  bind flag only if \<open>use_ipc_socket\<close> holds. This definition follows the specification, not
  the code; \<open>dockerd_args\<close> is the code.
\<close>

definition spec_argument_vector :: "settings \<Rightarrow> string list" where
  "spec_argument_vector st =
     [''dockerd'', ''--config-file'',
      ''/usr/local/packages/dockerdwrapperwithcompose/localdata/daemon.json''] @
     (if use_tls st
      then [''-H'', ''tcp://0.0.0.0:2376'', ''--tlsverify'',
            ''--tlscacert'', ''/usr/local/packages/dockerdwrapperwithcompose/ca.pem'',
            ''--tlscert'', ''/usr/local/packages/dockerdwrapperwithcompose/server-cert.pem'',
            ''--tlskey'', ''/usr/local/packages/dockerdwrapperwithcompose/server-key.pem'']
      else [''-H'', ''tcp://0.0.0.0:2375'', ''--tls=false'']) @
     (case data_root st of Some path \<Rightarrow> [''--data-root'', path] | None \<Rightarrow> []) @
     (if use_ipc_socket st then [''-H'', ''unix:///var/run/docker.sock''] else [])"

subsection \<open>Reading the trace\<close>

text \<open>
  The command lines handed to \<^verbatim>\<open>g_spawn_async\<close>, and the signals sent and waits made,
  in the order of the trace.
\<close>

fun spawned :: "effect \<Rightarrow> string list list" where
  "spawned (Spawn args) = [args]"
| "spawned _ = []"

definition spawns :: "effect list \<Rightarrow> string list list" where
  "spawns es = concat (map spawned es)"

fun is_signal_or_wait :: "effect \<Rightarrow> bool" where
  "is_signal_or_wait (Kill pid sig) = True"
| "is_signal_or_wait (Slept t) = True"
| "is_signal_or_wait _ = False"

definition signals_and_waits :: "effect list \<Rightarrow> effect list" where
  "signals_and_waits es = filter is_signal_or_wait es"

fun is_log :: "effect \<Rightarrow> bool" where
  "is_log (Syslog p fmt as) = True"
| "is_log (System cmd) = True"
| "is_log _ = False"

text \<open>\<open>s'\<close> is \<open>s\<close> with log lines and shell commands added to the trace.\<close>

definition logs_only :: "state \<Rightarrow> state \<Rightarrow> bool" where
  "logs_only s s' \<longleftrightarrow>
     s' = s\<lparr>trace := trace s'\<rparr> \<and> take (length (trace s)) (trace s') = trace s \<and>
     list_all is_log (drop (length (trace s)) (trace s'))"

text \<open>The effects added to the trace between \<open>s\<close> and a later state \<open>s'\<close>.\<close>

definition added :: "state \<Rightarrow> state \<Rightarrow> effect list" where
  "added s s' = drop (length (trace s)) (trace s')"

section \<open>Properties\<close>

subsection \<open>What each step leaves unchanged\<close>

lemma emit_fields [simp]:
  "exit_code (emit e s) = exit_code s"
  "dockerd_process_pid (emit e s) = dockerd_process_pid s"
  "restart_dockerd (emit e s) = restart_dockerd s"
  "loop_quit (emit e s) = loop_quit s"
  "trace (emit e s) = trace s @ [e]"
  by (simp_all add: emit_def)

lemma syslog_fields [simp]:
  "exit_code (syslog p f as s) = exit_code s"
  "dockerd_process_pid (syslog p f as s) = dockerd_process_pid s"
  "restart_dockerd (syslog p f as s) = restart_dockerd s"
  "loop_quit (syslog p f as s) = loop_quit s"
  "trace (syslog p f as s) = trace s @ [Syslog p f as]"
  by (simp_all add: syslog_def)

lemma g_main_loop_quit_fields [simp]:
  "exit_code (g_main_loop_quit s) = exit_code s"
  "dockerd_process_pid (g_main_loop_quit s) = dockerd_process_pid s"
  "restart_dockerd (g_main_loop_quit s) = restart_dockerd s"
  "loop_quit (g_main_loop_quit s) = True"
  "trace (g_main_loop_quit s) = trace s"
  by (simp_all add: g_main_loop_quit_def)

lemma spawns_simps [simp]:
  "spawns [] = []"
  "spawns (xs @ ys) = spawns xs @ spawns ys"
  "spawns (e # es) = spawned e @ spawns es"
  by (simp_all add: spawns_def)

lemma signals_and_waits_simps [simp]:
  "signals_and_waits [] = []"
  "signals_and_waits (xs @ ys) = signals_and_waits xs @ signals_and_waits ys"
  "signals_and_waits (e # es) = (if is_signal_or_wait e then e # signals_and_waits es else signals_and_waits es)"
  by (simp_all add: signals_and_waits_def)

lemma logs_onlyI: "list_all is_log es \<Longrightarrow> logs_only s (s\<lparr>trace := trace s @ es\<rparr>)"
  by (simp add: logs_only_def)

lemma logs_onlyD: "logs_only s s' \<Longrightarrow> \<exists>es. s' = s\<lparr>trace := trace s @ es\<rparr> \<and> list_all is_log es"
  unfolding logs_only_def
  by (metis append_take_drop_id)

lemma logs_only_refl [simp]: "logs_only s s"
  by (simp add: logs_only_def)

lemma logs_only_trans: "logs_only a b \<Longrightarrow> logs_only b c \<Longrightarrow> logs_only a c"
proof -
  assume "logs_only a b" "logs_only b c"
  then obtain es fs where b: "b = a\<lparr>trace := trace a @ es\<rparr>" "list_all is_log es"
    and c: "c = b\<lparr>trace := trace b @ fs\<rparr>" "list_all is_log fs"
    by (blast dest: logs_onlyD)
  have "c = a\<lparr>trace := trace a @ (es @ fs)\<rparr>" using b c by simp
  moreover have "list_all is_log (es @ fs)" using b c by simp
  ultimately show ?thesis using logs_onlyI by metis
qed

lemma logs_only_syslog [simp]: "logs_only s (syslog p f as s)"
  using logs_onlyI [of "[Syslog p f as]" s] by (simp add: syslog_def emit_def)

lemma logs_only_syslog': "logs_only s s' \<Longrightarrow> logs_only s (syslog p f as s')"
  using logs_only_trans logs_only_syslog by blast

lemma logs_only_system [simp]: "logs_only s (emit (System c) s)"
  using logs_onlyI [of "[System c]" s] by (simp add: emit_def)

lemma is_log_spawned: "is_log e \<Longrightarrow> spawned e = []"
  by (cases e) simp_all

lemma is_log_not_signal: "is_log e \<Longrightarrow> \<not> is_signal_or_wait e"
  by (cases e) simp_all

lemma logs_spawns: "list_all is_log es \<Longrightarrow> spawns es = []"
  by (induction es) (simp_all add: is_log_spawned)

lemma logs_signals: "list_all is_log es \<Longrightarrow> signals_and_waits es = []"
  by (induction es) (simp_all add: is_log_not_signal)

lemma logs_only_fields:
  assumes "logs_only s s'"
  shows "exit_code s' = exit_code s" "dockerd_process_pid s' = dockerd_process_pid s"
    "restart_dockerd s' = restart_dockerd s" "loop_quit s' = loop_quit s"
    "spawns (trace s') = spawns (trace s)"
    "signals_and_waits (trace s') = signals_and_waits (trace s)"
    "length (trace s) \<le> length (trace s')"
    "take (length (trace s)) (trace s') = trace s"
proof -
  obtain es where e: "s' = s\<lparr>trace := trace s @ es\<rparr>" "list_all is_log es"
    using assms logs_onlyD by blast
  show "exit_code s' = exit_code s" "dockerd_process_pid s' = dockerd_process_pid s"
    "restart_dockerd s' = restart_dockerd s" "loop_quit s' = loop_quit s"
    "spawns (trace s') = spawns (trace s)"
    "signals_and_waits (trace s') = signals_and_waits (trace s)"
    "length (trace s) \<le> length (trace s')"
    "take (length (trace s)) (trace s') = trace s"
    using e by (simp_all add: logs_spawns logs_signals)
qed

lemma get_parameter_value_logs: "logs_only s (snd (get_parameter_value w n s))"
  by (simp add: get_parameter_value_def split: option.splits)

lemma get_parameter_value_fst:
  "fst (get_parameter_value w n s) = (if ax_parameter_new_ok w then ax_parameter_get w n else None)"
  by (simp add: get_parameter_value_def split: option.splits)

lemma is_parameter_yes_logs: "logs_only s (snd (is_parameter_yes w n s))"
  using get_parameter_value_logs [of s w n]
  by (simp add: is_parameter_yes_def case_prod_beta)

lemma is_parameter_yes_fst:
  "fst (is_parameter_yes w n s) = (ax_parameter_new_ok w \<and> ax_parameter_get w n = Some ''yes'')"
  by (simp add: is_parameter_yes_def case_prod_beta get_parameter_value_fst)

lemma get_filesystem_of_path_logs: "logs_only s (snd (get_filesystem_of_path w p s))"
  by (simp add: get_filesystem_of_path_def split: option.splits)

lemma get_filesystem_of_path_fst:
  "fst (get_filesystem_of_path w p s) =
     (case stat_dev w p of None \<Rightarrow> None
      | Some dev \<Rightarrow> (case proc_mounts w of None \<Rightarrow> None | Some mnts \<Rightarrow> find_mount w dev mnts))"
  by (simp add: get_filesystem_of_path_def split: option.splits)

lemma setup_sdcard_logs: "logs_only s (snd (setup_sdcard w d s))"
proof -
  have a: "logs_only s (emit (System (''mkdir -p '' @ d)) s)" by simp
  have b: "logs_only (emit (System (''mkdir -p '' @ d)) s)
             (snd (get_filesystem_of_path w d (emit (System (''mkdir -p '' @ d)) s)))"
    by (rule get_filesystem_of_path_logs)
  note c = logs_only_trans [OF a b]
  show ?thesis
    using a c
    by (simp add: setup_sdcard_def Let_def case_prod_beta logs_only_syslog' split: option.splits)
qed

subsection \<open>The settings that are read\<close>

lemma sd_selection_logs:
  "logs_only s (snd (snd (get_and_verify_sd_card_selection w st s)))"
proof -
  let ?s1 = "snd (is_parameter_yes w ''SDCardSupport'' s)"
  have a: "logs_only s ?s1" by (rule is_parameter_yes_logs)
  have b: "logs_only s (snd (setup_sdcard w d ?s1))" for d
    using logs_only_trans [OF a setup_sdcard_logs] .
  show ?thesis
    using a b
    by (simp add: get_and_verify_sd_card_selection_def Let_def case_prod_beta logs_only_syslog')
qed

lemma sd_selection_data_root:
  "data_root (fst (snd (get_and_verify_sd_card_selection w st s))) =
     (if ax_parameter_new_ok w \<and> ax_parameter_get w ''SDCardSupport'' = Some ''yes''
      then Some (dockerd_path_on_sd_card @ ''/data'') else None)"
  by (simp add: get_and_verify_sd_card_selection_def Let_def case_prod_beta is_parameter_yes_fst)

lemma sd_selection_ok:
  "fst (get_and_verify_sd_card_selection w st s) =
     (ax_parameter_new_ok w \<and> ax_parameter_get w ''SDCardSupport'' = Some ''yes'' \<longrightarrow>
      fst (setup_sdcard w (dockerd_path_on_sd_card @ ''/data'')
             (snd (is_parameter_yes w ''SDCardSupport'' s))))"
  by (simp add: get_and_verify_sd_card_selection_def Let_def case_prod_beta is_parameter_yes_fst)

lemma tls_selection_logs:
  "logs_only s (snd (snd (get_and_verify_tls_selection w st s)))"
proof -
  let ?s1 = "snd (is_parameter_yes w ''UseTLS'' s)"
  have a: "logs_only s ?s1" by (rule is_parameter_yes_logs)
  show ?thesis
    using a
    by (simp add: get_and_verify_tls_selection_def Let_def case_prod_beta logs_only_syslog')
qed

lemma tls_selection_ok:
  "fst (get_and_verify_tls_selection w st s) =
     (ax_parameter_new_ok w \<and> ax_parameter_get w ''UseTLS'' = Some ''yes'' \<longrightarrow>
      access_status w (tls_cert_path @ ''ca.pem'') F_OK = 0 \<and>
      access_status w (tls_cert_path @ ''server-cert.pem'') F_OK = 0 \<and>
      access_status w (tls_cert_path @ ''server-key.pem'') F_OK = 0)"
  by (auto simp add: get_and_verify_tls_selection_def Let_def case_prod_beta is_parameter_yes_fst
        tls_certs_def)

lemma tls_selection_data_root:
  "data_root (fst (snd (get_and_verify_tls_selection w st s))) = data_root st"
  by (simp add: get_and_verify_tls_selection_def Let_def case_prod_beta)

lemma tls_selection_use_tls:
  "use_tls (fst (snd (get_and_verify_tls_selection w st s))) =
     (if fst (get_and_verify_tls_selection w st s)
      then ax_parameter_new_ok w \<and> ax_parameter_get w ''UseTLS'' = Some ''yes''
      else use_tls st)"
  by (auto simp add: get_and_verify_tls_selection_def Let_def case_prod_beta is_parameter_yes_fst)

lemma ipc_selection_logs:
  "logs_only s (snd (snd (get_ipc_socket_selection w st s)))"
  by (simp add: get_ipc_socket_selection_def case_prod_beta is_parameter_yes_logs)

lemma ipc_selection_settings:
  "fst (get_ipc_socket_selection w st s)"
  "data_root (fst (snd (get_ipc_socket_selection w st s))) = data_root st"
  "use_tls (fst (snd (get_ipc_socket_selection w st s))) = use_tls st"
  "use_ipc_socket (fst (snd (get_ipc_socket_selection w st s))) =
     (ax_parameter_new_ok w \<and> ax_parameter_get w ''IPCSocket'' = Some ''yes'')"
  by (simp_all add: get_ipc_socket_selection_def case_prod_beta is_parameter_yes_fst)

lemma read_settings_logs: "logs_only s (snd (snd (read_settings w st s)))"
proof -
  let ?r1 = "get_and_verify_sd_card_selection w st s"
  let ?r2 = "get_and_verify_tls_selection w (fst (snd ?r1)) (snd (snd ?r1))"
  let ?r3 = "get_ipc_socket_selection w (fst (snd ?r2)) (snd (snd ?r2))"
  have a: "logs_only s (snd (snd ?r1))" by (rule sd_selection_logs)
  have b: "logs_only s (snd (snd ?r2))" using logs_only_trans [OF a tls_selection_logs] .
  have c: "logs_only s (snd (snd ?r3))" using logs_only_trans [OF b ipc_selection_logs] .
  show ?thesis
    using a b c
    by (simp add: read_settings_def Let_def case_prod_beta logs_only_syslog')
qed

lemma read_settings_ok:
  "fst (read_settings w st s) =
     (fst (get_and_verify_sd_card_selection w st s) \<and>
      fst (get_and_verify_tls_selection w
             (fst (snd (get_and_verify_sd_card_selection w st s)))
             (snd (snd (get_and_verify_sd_card_selection w st s)))))"
  by (simp add: read_settings_def Let_def case_prod_beta ipc_selection_settings)

lemma read_settings_settings:
  assumes "fst (read_settings w st s)"
  shows "data_root (fst (snd (read_settings w st s))) =
           (if ax_parameter_new_ok w \<and> ax_parameter_get w ''SDCardSupport'' = Some ''yes''
            then Some (dockerd_path_on_sd_card @ ''/data'') else None)"
    and "use_tls (fst (snd (read_settings w st s))) =
           (ax_parameter_new_ok w \<and> ax_parameter_get w ''UseTLS'' = Some ''yes'')"
    and "use_ipc_socket (fst (snd (read_settings w st s))) =
           (ax_parameter_new_ok w \<and> ax_parameter_get w ''IPCSocket'' = Some ''yes'')"
  using assms
  by (simp_all add: read_settings_def Let_def case_prod_beta ipc_selection_settings
        tls_selection_data_root sd_selection_data_root tls_selection_use_tls split: if_splits)

subsection \<open>Launching\<close>

lemma dockerd_args_closed:
  "dockerd_args \<lparr>data_root = None, use_tls = False, use_ipc_socket = False\<rparr> =
     Inr (spec_argument_vector \<lparr>data_root = None, use_tls = False, use_ipc_socket = False\<rparr>)"
  "dockerd_args \<lparr>data_root = None, use_tls = False, use_ipc_socket = True\<rparr> =
     Inr (spec_argument_vector \<lparr>data_root = None, use_tls = False, use_ipc_socket = True\<rparr>)"
  "dockerd_args \<lparr>data_root = None, use_tls = True, use_ipc_socket = False\<rparr> =
     Inr (spec_argument_vector \<lparr>data_root = None, use_tls = True, use_ipc_socket = False\<rparr>)"
  "dockerd_args \<lparr>data_root = None, use_tls = True, use_ipc_socket = True\<rparr> =
     Inr (spec_argument_vector \<lparr>data_root = None, use_tls = True, use_ipc_socket = True\<rparr>)"
  "dockerd_args \<lparr>data_root = Some (dockerd_path_on_sd_card @ ''/data''), use_tls = False, use_ipc_socket = False\<rparr> =
     Inr (spec_argument_vector \<lparr>data_root = Some (dockerd_path_on_sd_card @ ''/data''), use_tls = False, use_ipc_socket = False\<rparr>)"
  "dockerd_args \<lparr>data_root = Some (dockerd_path_on_sd_card @ ''/data''), use_tls = False, use_ipc_socket = True\<rparr> =
     Inr (spec_argument_vector \<lparr>data_root = Some (dockerd_path_on_sd_card @ ''/data''), use_tls = False, use_ipc_socket = True\<rparr>)"
  "dockerd_args \<lparr>data_root = Some (dockerd_path_on_sd_card @ ''/data''), use_tls = True, use_ipc_socket = False\<rparr> =
     Inr (spec_argument_vector \<lparr>data_root = Some (dockerd_path_on_sd_card @ ''/data''), use_tls = True, use_ipc_socket = False\<rparr>)"
  "dockerd_args \<lparr>data_root = Some (dockerd_path_on_sd_card @ ''/data''), use_tls = True, use_ipc_socket = True\<rparr> =
     Inr (spec_argument_vector \<lparr>data_root = Some (dockerd_path_on_sd_card @ ''/data''), use_tls = True, use_ipc_socket = True\<rparr>)"
  by code_simp+

lemma dockerd_args_no_sd:
  "dockerd_args \<lparr>data_root = None, use_tls = t, use_ipc_socket = i\<rparr> =
     Inr (spec_argument_vector \<lparr>data_root = None, use_tls = t, use_ipc_socket = i\<rparr>)"
  by (cases t; cases i) (simp_all only: dockerd_args_closed)

lemma dockerd_args_sd:
  "dockerd_args \<lparr>data_root = Some (dockerd_path_on_sd_card @ ''/data''), use_tls = t,
                  use_ipc_socket = i\<rparr> =
     Inr (spec_argument_vector \<lparr>data_root = Some (dockerd_path_on_sd_card @ ''/data''),
                                 use_tls = t, use_ipc_socket = i\<rparr>)"
  by (cases t; cases i) (simp_all only: dockerd_args_closed)

lemma dockerd_args_validated:
  assumes "data_root st = None \<or> data_root st = Some (dockerd_path_on_sd_card @ ''/data'')"
  shows "dockerd_args st = Inr (spec_argument_vector st)"
proof -
  have st: "st = \<lparr>data_root = data_root st, use_tls = use_tls st,
                  use_ipc_socket = use_ipc_socket st\<rparr>"
    by simp
  from assms show ?thesis
  proof
    assume "data_root st = None"
    then show ?thesis using dockerd_args_no_sd [of "use_tls st" "use_ipc_socket st"] st by metis
  next
    assume "data_root st = Some (dockerd_path_on_sd_card @ ''/data'')"
    then show ?thesis using dockerd_args_sd [of "use_tls st" "use_ipc_socket st"] st by metis
  qed
qed

lemma is_process_alive_emit [simp]:
  "is_process_alive w p (emit e s) = is_process_alive w p s"
  by (simp add: is_process_alive_def)

lemma start_dockerd_result:
  assumes "dockerd_args st = Inr args"
  shows "\<exists>ok s'. start_dockerd w st s = Inr (ok, s') \<and>
           restart_dockerd s' = restart_dockerd s \<and>
           spawns (trace s') = spawns (trace s) @ [args] \<and>
           signals_and_waits (trace s') = signals_and_waits (trace s) \<and>
           (exit_code s' = exit_code s \<or> exit_code s' = -1) \<and>
           (loop_quit s \<longrightarrow> loop_quit s') \<and>
           (ok \<longrightarrow> exit_code s' = exit_code s \<and> loop_quit s' = loop_quit s \<and>
                   spawn_async w args = Some (dockerd_process_pid s')) \<and>
           (\<not> ok \<longrightarrow>
              (spawn_async w args = None \<and> dockerd_process_pid s' = dockerd_process_pid s \<and>
               exit_code s' = exit_code s \<and> loop_quit s' = loop_quit s) \<or>
              (spawn_async w args = Some (dockerd_process_pid s') \<and> exit_code s' = -1 \<and>
               loop_quit s'))"
  using assms
  by (auto simp add: start_dockerd_def Let_def split: option.splits)

lemma read_settings_validated:
  assumes "fst (read_settings w st s)"
  shows "dockerd_args (fst (snd (read_settings w st s))) =
           Inr (spec_argument_vector (fst (snd (read_settings w st s))))"
  using read_settings_settings(1) [OF assms] by (simp add: dockerd_args_validated)

text \<open>What \<open>read_settings_and_start_dockerd\<close> does, in one statement.\<close>

lemma read_settings_and_start_dockerd_result:
  "\<exists>ok s'. read_settings_and_start_dockerd w s = Inr (ok, s') \<and>
     restart_dockerd s' = restart_dockerd s \<and>
     signals_and_waits (trace s') = signals_and_waits (trace s) \<and>
     (exit_code s' = exit_code s \<or> exit_code s' = -1) \<and>
     (loop_quit s \<longrightarrow> loop_quit s') \<and>
     (ok \<longrightarrow> exit_code s' = exit_code s \<and> loop_quit s' = loop_quit s) \<and>
     (\<not> fst (read_settings w \<lparr>data_root = None, use_tls = False, use_ipc_socket = False\<rparr> s) \<longrightarrow>
        \<not> ok \<and> spawns (trace s') = spawns (trace s) \<and>
        dockerd_process_pid s' = dockerd_process_pid s \<and> exit_code s' = exit_code s \<and>
        loop_quit s' = loop_quit s) \<and>
     (fst (read_settings w \<lparr>data_root = None, use_tls = False, use_ipc_socket = False\<rparr> s) \<longrightarrow>
        spawns (trace s') = spawns (trace s) @
          [spec_argument_vector
             (fst (snd (read_settings w \<lparr>data_root = None, use_tls = False, use_ipc_socket = False\<rparr> s)))])"
proof -
  let ?st0 = "\<lparr>data_root = None, use_tls = False, use_ipc_socket = False\<rparr>"
  let ?r = "read_settings w ?st0 s"
  note l = logs_only_fields(1-6) [OF read_settings_logs [of s w ?st0]]
  show ?thesis
  proof (cases "fst ?r")
    case False
    then have "read_settings_and_start_dockerd w s = Inr (False, snd (snd ?r))"
      by (simp add: read_settings_and_start_dockerd_def case_prod_beta)
    then show ?thesis using False l by auto
  next
    case True
    then have eq: "read_settings_and_start_dockerd w s = start_dockerd w (fst (snd ?r)) (snd (snd ?r))"
      by (simp add: read_settings_and_start_dockerd_def case_prod_beta Let_def)
    from start_dockerd_result [OF read_settings_validated [OF True], of w "snd (snd ?r)"]
    obtain ok s' where r: "start_dockerd w (fst (snd ?r)) (snd (snd ?r)) = Inr (ok, s')"
      "restart_dockerd s' = restart_dockerd (snd (snd ?r))"
      "spawns (trace s') = spawns (trace (snd (snd ?r))) @ [spec_argument_vector (fst (snd ?r))]"
      "signals_and_waits (trace s') = signals_and_waits (trace (snd (snd ?r)))"
      "exit_code s' = exit_code (snd (snd ?r)) \<or> exit_code s' = -1"
      "loop_quit (snd (snd ?r)) \<longrightarrow> loop_quit s'"
      "ok \<longrightarrow> exit_code s' = exit_code (snd (snd ?r)) \<and> loop_quit s' = loop_quit (snd (snd ?r))"
      by blast
    show ?thesis using r True l eq by auto
  qed
qed

lemma callback_result:
  "\<exists>s'. dockerd_process_exited_callback w pid status s = Inr s' \<and>
     \<not> restart_dockerd s' \<and>
     signals_and_waits (trace s') = signals_and_waits (trace s) \<and>
     (exit_code s' = exit_code s \<or> exit_code s' = -1) \<and>
     (\<not> spawn_check_exit_status w status \<longrightarrow> exit_code s' = -1) \<and>
     (loop_quit s \<longrightarrow> loop_quit s') \<and>
     (\<not> restart_dockerd s \<longrightarrow>
        loop_quit s' \<and> dockerd_process_pid s' = -1 \<and> spawns (trace s') = spawns (trace s) \<and>
        exit_code s' = (if spawn_check_exit_status w status then exit_code s else -1))"
proof -
  let ?s1 = "if \<not> spawn_check_exit_status w status
             then (syslog LOG_ERR ''Dockerd process exited with error: %d'' [Num status] s)
                    \<lparr>exit_code := -1\<rparr>
             else s"
  let ?s3 = "emit (Remove ''/var/run/docker.pid'')
               (emit (ClosePid pid) (?s1\<lparr>dockerd_process_pid := -1\<rparr>))"
  show ?thesis
  proof (cases "restart_dockerd s")
    case False
    then show ?thesis
      by (simp add: dockerd_process_exited_callback_def Let_def)
  next
    case True
    obtain ok s4 where r: "read_settings_and_start_dockerd w (?s3\<lparr>restart_dockerd := False\<rparr>) = Inr (ok, s4)"
      "restart_dockerd s4 = restart_dockerd (?s3\<lparr>restart_dockerd := False\<rparr>)"
      "signals_and_waits (trace s4) = signals_and_waits (trace (?s3\<lparr>restart_dockerd := False\<rparr>))"
      "exit_code s4 = exit_code (?s3\<lparr>restart_dockerd := False\<rparr>) \<or> exit_code s4 = -1"
      "loop_quit (?s3\<lparr>restart_dockerd := False\<rparr>) \<longrightarrow> loop_quit s4"
      using read_settings_and_start_dockerd_result [of w "?s3\<lparr>restart_dockerd := False\<rparr>"]
      by blast
    have "dockerd_process_exited_callback w pid status s =
            (if \<not> ok then Inr (g_main_loop_quit (s4\<lparr>exit_code := -1\<rparr>)) else Inr s4)"
      using True r(1) by (simp add: dockerd_process_exited_callback_def Let_def)
    then show ?thesis using r(2-5) True
      by (cases ok) (auto split: if_splits)
  qed
qed

subsection \<open>The trace only grows\<close>

lemma prefix_emit [simp]: "prefix (trace s) (trace (emit e s))"
  by simp

lemma prefix_syslog [simp]: "prefix (trace s) (trace (syslog p f as s))"
  by simp

lemma logs_only_prefix: "logs_only s s' \<Longrightarrow> prefix (trace s) (trace s')"
  using logs_onlyD by fastforce

lemma added_prefix: "prefix (trace s) (trace s') \<Longrightarrow> trace s' = trace s @ added s s'"
  by (auto simp add: added_def prefix_def)

lemma added_signals:
  assumes "prefix (trace s) (trace s')"
    and "signals_and_waits (trace s') = signals_and_waits (trace s) @ xs"
  shows "signals_and_waits (added s s') = xs"
  using assms(2) added_prefix [OF assms(1)] by simp

lemma added_spawns:
  assumes "prefix (trace s) (trace s')"
    and "spawns (trace s') = spawns (trace s) @ xs"
  shows "spawns (added s s') = xs"
  using assms(2) added_prefix [OF assms(1)] by simp

lemma start_dockerd_prefix:
  "start_dockerd w st s = Inr (ok, s') \<Longrightarrow> prefix (trace s) (trace s')"
  by (auto simp add: start_dockerd_def Let_def split: sum.splits option.splits if_splits)

lemma read_settings_and_start_dockerd_prefix:
  assumes "read_settings_and_start_dockerd w s = Inr (ok, s')"
  shows "prefix (trace s) (trace s')"
proof -
  let ?r = "read_settings w \<lparr>data_root = None, use_tls = False, use_ipc_socket = False\<rparr> s"
  have a: "prefix (trace s) (trace (snd (snd ?r)))"
    by (rule logs_only_prefix [OF read_settings_logs])
  show ?thesis
  proof (cases "fst ?r")
    case False
    then show ?thesis using assms a
      by (simp add: read_settings_and_start_dockerd_def case_prod_beta Let_def)
  next
    case True
    then have "start_dockerd w (fst (snd ?r)) (snd (snd ?r)) = Inr (ok, s')"
      using assms by (simp add: read_settings_and_start_dockerd_def case_prod_beta Let_def)
    from start_dockerd_prefix [OF this] a show ?thesis by (rule prefix_order.trans [rotated])
  qed
qed

lemma callback_prefix:
  assumes "dockerd_process_exited_callback w pid status s = Inr s'"
  shows "prefix (trace s) (trace s')"
proof -
  let ?s1 = "if \<not> spawn_check_exit_status w status
             then (syslog LOG_ERR ''Dockerd process exited with error: %d'' [Num status] s)
                    \<lparr>exit_code := -1\<rparr>
             else s"
  let ?s3 = "emit (Remove ''/var/run/docker.pid'')
               (emit (ClosePid pid) (?s1\<lparr>dockerd_process_pid := -1\<rparr>))"
  have a: "prefix (trace s) (trace ?s3)" by simp
  show ?thesis
  proof (cases "restart_dockerd s")
    case False
    then show ?thesis using assms
      by (auto simp add: dockerd_process_exited_callback_def Let_def split: if_splits)
  next
    case True
    obtain ok s4 where r: "read_settings_and_start_dockerd w (?s3\<lparr>restart_dockerd := False\<rparr>) = Inr (ok, s4)"
      using read_settings_and_start_dockerd_result [of w "?s3\<lparr>restart_dockerd := False\<rparr>"]
      by blast
    have b: "prefix (trace ?s3) (trace s4)"
      using read_settings_and_start_dockerd_prefix [OF r] by simp
    have "trace s' = trace s4"
      using assms True r by (auto simp add: dockerd_process_exited_callback_def Let_def split: if_splits)
    then show ?thesis using prefix_order.trans [OF a b] by simp
  qed
qed

lemma handle_signals_fields [simp]:
  "exit_code (handle_signals g s) = exit_code s"
  "dockerd_process_pid (handle_signals g s) = dockerd_process_pid s"
  "restart_dockerd (handle_signals g s) = restart_dockerd s"
  "trace (handle_signals g s) = trace s"
  "loop_quit s \<Longrightarrow> loop_quit (handle_signals g s)"
  by (simp_all add: handle_signals_def split: signal.splits)

lemma sleep_fields [simp]:
  "exit_code (sleep w n s) = exit_code s"
  "dockerd_process_pid (sleep w n s) = dockerd_process_pid s"
  "restart_dockerd (sleep w n s) = restart_dockerd s"
  "trace (sleep w n s) = trace s @ [Slept (time_slept w n)]"
  "loop_quit s \<Longrightarrow> loop_quit (sleep w n s)"
  by (simp_all add: sleep_def time_slept_def split: wait_outcome.splits)

subsection \<open>Stopping\<close>

lemma stop_dockerd_untracked:
  "dockerd_process_pid s = -1 \<Longrightarrow> stop_dockerd w s = Inr (True, s)"
  by (simp add: stop_dockerd_def)

lemma stop_dockerd_tracked:
  assumes "dockerd_process_pid s \<noteq> -1"
  shows "\<exists>ok s' es. stop_dockerd w s = Inr (ok, s') \<and>
     trace s' = trace s @ Kill (dockerd_process_pid s) SIGTERM #
       (if kill_status w (dockerd_process_pid s) SIGTERM = 0 then []
        else [Syslog LOG_ERR ''Failed to send SIGTERM to child. Error: %s'' [ErrorMessage]]) @ es \<and>
     signals_and_waits es =
       Slept (time_slept w 10) #
       (if dockerd_process_pid s' = -1 then [] else [Kill (dockerd_process_pid s') SIGKILL]) \<and>
     ok = (dockerd_process_pid s' = -1 \<or> kill_status w (dockerd_process_pid s') SIGKILL = 0) \<and>
     (exit_code s' = exit_code s \<or> exit_code s' = -1) \<and>
     (loop_quit s \<longrightarrow> loop_quit s') \<and>
     (\<not> restart_dockerd s \<longrightarrow> \<not> restart_dockerd s' \<and> spawns (trace s') = spawns (trace s)) \<and>
     dockerd_process_pid s' = dockerd_process_pid s \<and>
     restart_dockerd s' = restart_dockerd s \<and> exit_code s' = exit_code s \<and>
     spawns (trace s') = spawns (trace s)"
proof -
  define p where "p = dockerd_process_pid s"
  define log where "log = (if kill_status w p SIGTERM = 0 then []
     else [Syslog LOG_ERR ''Failed to send SIGTERM to child. Error: %s'' [ErrorMessage]])"
  define s2 where "s2 = (if \<not> (kill_status w p SIGTERM = 0)
     then syslog LOG_ERR ''Failed to send SIGTERM to child. Error: %s'' [ErrorMessage]
            (emit (Kill p SIGTERM) s)
     else emit (Kill p SIGTERM) s)"
  define s3 where "s3 = sleep w 10 s2"
  define log5 where "log5 = (if kill_status w p SIGKILL = 0 then []
     else [Syslog LOG_ERR ''Failed to send SIGKILL to child. Error: %s'' [ErrorMessage]])"
  define s5 where "s5 = (if \<not> (kill_status w p SIGKILL = 0)
     then syslog LOG_ERR ''Failed to send SIGKILL to child. Error: %s'' [ErrorMessage]
            (emit (Kill p SIGKILL) s3)
     else emit (Kill p SIGKILL) s3)"
  define es where "es = Slept (time_slept w 10) # Kill p SIGKILL # log5"
  have s2: "trace s2 = trace s @ Kill p SIGTERM # log" "exit_code s2 = exit_code s"
    "loop_quit s2 = loop_quit s" "restart_dockerd s2 = restart_dockerd s"
    "dockerd_process_pid s2 = p"
    by (simp_all add: s2_def log_def p_def)
  have s3: "trace s3 = trace s @ Kill p SIGTERM # log @ [Slept (time_slept w 10)]"
    "exit_code s3 = exit_code s" "loop_quit s \<longrightarrow> loop_quit s3"
    "restart_dockerd s3 = restart_dockerd s" "dockerd_process_pid s3 = p"
    using s2 by (simp_all add: s3_def)
  have s5: "trace s5 = trace s @ Kill p SIGTERM # log @ es"
    "exit_code s5 = exit_code s" "loop_quit s \<longrightarrow> loop_quit s5"
    "restart_dockerd s5 = restart_dockerd s" "dockerd_process_pid s5 = p"
    using s3 by (simp_all add: s5_def es_def log5_def)
  have logs: "spawns log = []" "signals_and_waits log = []" "spawns log5 = []"
    "signals_and_waits log5 = []"
    by (simp_all add: log_def log5_def)
  have g: "signals_and_waits es = [Slept (time_slept w 10), Kill p SIGKILL]"
    "spawns es = []"
    using logs by (simp_all add: es_def)
  have sp: "spawns (trace s5) = spawns (trace s)"
    using s5(1) g(2) logs by simp
  have p: "p \<noteq> -1" using assms by (simp add: p_def)
  have st: "stop_dockerd w s = Inr (kill_status w p SIGKILL = 0, s5)"
    unfolding stop_dockerd_def Let_def
    using assms s3(5) p
    unfolding s5_def s3_def s2_def p_def by simp
  have "stop_dockerd w s = Inr (kill_status w p SIGKILL = 0, s5) \<and>
     trace s5 = trace s @ Kill (dockerd_process_pid s) SIGTERM #
       (if kill_status w (dockerd_process_pid s) SIGTERM = 0 then []
        else [Syslog LOG_ERR ''Failed to send SIGTERM to child. Error: %s'' [ErrorMessage]]) @ es \<and>
     signals_and_waits es =
       Slept (time_slept w 10) #
       (if dockerd_process_pid s5 = -1 then [] else [Kill (dockerd_process_pid s5) SIGKILL]) \<and>
     (kill_status w p SIGKILL = 0) =
       (dockerd_process_pid s5 = -1 \<or> kill_status w (dockerd_process_pid s5) SIGKILL = 0) \<and>
     (exit_code s5 = exit_code s \<or> exit_code s5 = -1) \<and>
     (loop_quit s \<longrightarrow> loop_quit s5) \<and>
     (\<not> restart_dockerd s \<longrightarrow> \<not> restart_dockerd s5 \<and> spawns (trace s5) = spawns (trace s)) \<and>
     dockerd_process_pid s5 = dockerd_process_pid s \<and>
     restart_dockerd s5 = restart_dockerd s \<and> exit_code s5 = exit_code s \<and>
     spawns (trace s5) = spawns (trace s)"
    using st s5 g(1) sp p unfolding log_def by (simp add: p_def)
  then show ?thesis by blast
qed

lemma stop_dockerd_result:
  "\<exists>ok s'. stop_dockerd w s = Inr (ok, s') \<and> prefix (trace s) (trace s') \<and>
     (exit_code s' = exit_code s \<or> exit_code s' = -1) \<and>
     (loop_quit s \<longrightarrow> loop_quit s') \<and>
     (\<not> restart_dockerd s \<longrightarrow> \<not> restart_dockerd s' \<and> spawns (trace s') = spawns (trace s)) \<and>
     restart_dockerd s' = restart_dockerd s \<and>
     dockerd_process_pid s' = dockerd_process_pid s \<and>
     spawns (trace s') = spawns (trace s)"
proof (cases "dockerd_process_pid s = -1")
  case True
  then show ?thesis by (auto simp add: stop_dockerd_untracked)
next
  case False
  from stop_dockerd_tracked [OF False, of w]
  obtain ok s' es where r: "stop_dockerd w s = Inr (ok, s')"
    "trace s' = trace s @ Kill (dockerd_process_pid s) SIGTERM #
       (if kill_status w (dockerd_process_pid s) SIGTERM = 0 then []
        else [Syslog LOG_ERR ''Failed to send SIGTERM to child. Error: %s'' [ErrorMessage]]) @ es"
     "exit_code s' = exit_code s \<or> exit_code s' = -1"
     "loop_quit s \<longrightarrow> loop_quit s'"
     "\<not> restart_dockerd s \<longrightarrow> \<not> restart_dockerd s' \<and> spawns (trace s') = spawns (trace s)"
     "restart_dockerd s' = restart_dockerd s" "dockerd_process_pid s' = dockerd_process_pid s"
     "spawns (trace s') = spawns (trace s)"
    by blast
  have "prefix (trace s) (trace s')" using r(2) by simp
  then show ?thesis using r(1,3-8) by simp
qed

section \<open>The claims\<close>

subsection \<open>Stopping the daemon\<close>

text \<open>
  Claim C8. When no pid is tracked, \<open>stop_dockerd\<close> returns success and leaves the state
  as it was: the trace is the same, so no signal has been sent. Calling it again, any
  number of times and in any worlds, gives success each time and the same state.
\<close>

theorem stop_dockerd_nothing_tracked:
  assumes "dockerd_process_pid s = -1"
  shows "stop_dockerd w s = Inr (True, s) \<and>
         stop_repeatedly ws s = Inr (replicate (length ws) True, s)"
proof
  show "stop_dockerd w s = Inr (True, s)"
    using assms by (rule stop_dockerd_untracked)
  show "stop_repeatedly ws s = Inr (replicate (length ws) True, s)"
    using assms by (induction ws) (simp_all add: stop_dockerd_untracked)
qed

theorem stop_dockerd_nothing_tracked_witness:
  "dockerd_process_pid initial_state = -1 \<and>
   stop_dockerd example_world initial_state = Inr (True, initial_state) \<and>
   stop_repeatedly [example_world, example_world\<lparr>kill_status := (\<lambda>pid sig. -1)\<rparr>] initial_state =
     Inr ([True, True], initial_state)"
proof -
  have h: "dockerd_process_pid initial_state = -1" by (simp add: initial_state_def)
  show ?thesis
    using h stop_dockerd_nothing_tracked [OF h, of example_world
        "[example_world, example_world\<lparr>kill_status := (\<lambda>pid sig. -1)\<rparr>]"]
    by (simp del: stop_repeatedly.simps)
qed

text \<open>
  Claim C7. With a tracked pid, \<open>stop_dockerd\<close> always returns a result. The first
  effect is the \<^verbatim>\<open>SIGTERM\<close> to the tracked pid; when that \<^verbatim>\<open>kill\<close> fails, the next
  effect is the error line in the log. The failure is not in the result: the result is
  success exactly when no pid is tracked at the end or the \<^verbatim>\<open>SIGKILL\<close> was sent
  successfully. Nothing after the wait changes the tracked pid, so a pid tracked in the
  final state is the pid tracked after the wait: then the signals and waits of the call
  are the \<^verbatim>\<open>SIGTERM\<close>, the wait and a \<^verbatim>\<open>SIGKILL\<close> to that pid, and the result is
  the success of that \<^verbatim>\<open>kill\<close>.
\<close>

theorem stop_dockerd_escalates:
  assumes "dockerd_process_pid s \<noteq> -1"
  shows "\<exists>ok s'. stop_dockerd w s = Inr (ok, s') \<and>
     take 1 (added s s') = [Kill (dockerd_process_pid s) SIGTERM] \<and>
     (kill_status w (dockerd_process_pid s) SIGTERM \<noteq> 0 \<longrightarrow>
        take 2 (added s s') =
          [Kill (dockerd_process_pid s) SIGTERM,
           Syslog LOG_ERR ''Failed to send SIGTERM to child. Error: %s'' [ErrorMessage]]) \<and>
     ok = (dockerd_process_pid s' = -1 \<or> kill_status w (dockerd_process_pid s') SIGKILL = 0) \<and>
     (dockerd_process_pid s' \<noteq> -1 \<longrightarrow>
        signals_and_waits (added s s') =
          [Kill (dockerd_process_pid s) SIGTERM, Slept (time_slept w 10),
           Kill (dockerd_process_pid s') SIGKILL] \<and>
        ok = (kill_status w (dockerd_process_pid s') SIGKILL = 0))"
proof -
  from stop_dockerd_tracked [OF assms, of w]
  obtain ok s' es where r: "stop_dockerd w s = Inr (ok, s')"
    "trace s' = trace s @ Kill (dockerd_process_pid s) SIGTERM #
       (if kill_status w (dockerd_process_pid s) SIGTERM = 0 then []
        else [Syslog LOG_ERR ''Failed to send SIGTERM to child. Error: %s'' [ErrorMessage]]) @ es"
    "signals_and_waits es =
       Slept (time_slept w 10) #
       (if dockerd_process_pid s' = -1 then [] else [Kill (dockerd_process_pid s') SIGKILL])"
    "ok = (dockerd_process_pid s' = -1 \<or> kill_status w (dockerd_process_pid s') SIGKILL = 0)"
    by blast
  have a: "added s s' = Kill (dockerd_process_pid s) SIGTERM #
       (if kill_status w (dockerd_process_pid s) SIGTERM = 0 then []
        else [Syslog LOG_ERR ''Failed to send SIGTERM to child. Error: %s'' [ErrorMessage]]) @ es"
    using r(2) by (simp add: added_def)
  have "take 1 (added s s') = [Kill (dockerd_process_pid s) SIGTERM]"
    using a by simp
  moreover have "kill_status w (dockerd_process_pid s) SIGTERM \<noteq> 0 \<longrightarrow>
        take 2 (added s s') =
          [Kill (dockerd_process_pid s) SIGTERM,
           Syslog LOG_ERR ''Failed to send SIGTERM to child. Error: %s'' [ErrorMessage]]"
    using a by simp
  moreover have "dockerd_process_pid s' \<noteq> -1 \<longrightarrow>
        signals_and_waits (added s s') =
          [Kill (dockerd_process_pid s) SIGTERM, Slept (time_slept w 10),
           Kill (dockerd_process_pid s') SIGKILL] \<and>
        ok = (kill_status w (dockerd_process_pid s') SIGKILL = 0)"
    using a r(3) r(4) by simp
  ultimately show ?thesis using r(1) r(4) by blast
qed

lemma stop_dockerd_sigterm_fails_example: "(case stop_dockerd (example_world\<lparr>kill_status := (\<lambda>pid sig. if sig = SIGTERM then -1 else 0)\<rparr>)
           running_state of
      Inl f \<Rightarrow> False
    | Inr (ok, s') \<Rightarrow> ok \<and> dockerd_process_pid s' = 100 \<and>
        added running_state s' =
          [Kill 100 SIGTERM,
           Syslog LOG_ERR ''Failed to send SIGTERM to child. Error: %s'' [ErrorMessage],
           Slept 10, Kill 100 SIGKILL])"
  by code_simp


theorem stop_dockerd_escalates_witness:
  "dockerd_process_pid running_state \<noteq> -1 \<and>
   kill_status (example_world\<lparr>kill_status := (\<lambda>pid sig. if sig = SIGTERM then -1 else 0)\<rparr>)
     (dockerd_process_pid running_state) SIGTERM \<noteq> 0 \<and>
   (case stop_dockerd (example_world\<lparr>kill_status := (\<lambda>pid sig. if sig = SIGTERM then -1 else 0)\<rparr>)
           running_state of
      Inl f \<Rightarrow> False
    | Inr (ok, s') \<Rightarrow> ok \<and> dockerd_process_pid s' = 100 \<and>
        added running_state s' =
          [Kill 100 SIGTERM,
           Syslog LOG_ERR ''Failed to send SIGTERM to child. Error: %s'' [ErrorMessage],
           Slept 10, Kill 100 SIGKILL])"
proof -
  have h: "dockerd_process_pid running_state \<noteq> -1"
    by (simp add: running_state_def)
  have k: "kill_status (example_world\<lparr>kill_status := (\<lambda>pid sig. if sig = SIGTERM then -1 else 0)\<rparr>)
     (dockerd_process_pid running_state) SIGTERM \<noteq> 0"
    by simp
  show ?thesis
    using h k stop_dockerd_sigterm_fails_example
      stop_dockerd_escalates [OF h,
        of "example_world\<lparr>kill_status := (\<lambda>pid sig. if sig = SIGTERM then -1 else 0)\<rparr>"]
    by blast
qed

text \<open>
  Claim C2 says that the wait is cut short when the exit callback clears the tracked pid,
  and that \<open>stop_dockerd\<close> then returns success without a \<^verbatim>\<open>SIGKILL\<close>; so does the
  comment above \<^verbatim>\<open>sleep(10)\<close>. The code does not do this. With a tracked pid, whatever
  ends the wait, the same pid is tracked when \<^verbatim>\<open>sleep\<close> returns, because the callback
  that clears it is dispatched by the main loop only after \<open>stop_dockerd\<close> has returned:
  the test after the wait fails, the signals and waits of the call are the
  \<^verbatim>\<open>SIGTERM\<close>, the wait and a \<^verbatim>\<open>SIGKILL\<close> to the same pid, and the result is the
  success of that second \<^verbatim>\<open>kill\<close>.
\<close>

theorem stop_dockerd_wait_not_cancelled:
  assumes "dockerd_process_pid s \<noteq> -1"
  shows "\<exists>ok s'. stop_dockerd w s = Inr (ok, s') \<and>
           dockerd_process_pid s' = dockerd_process_pid s \<and>
           signals_and_waits (added s s') =
             [Kill (dockerd_process_pid s) SIGTERM, Slept (time_slept w 10),
              Kill (dockerd_process_pid s) SIGKILL] \<and>
           ok = (kill_status w (dockerd_process_pid s) SIGKILL = 0)"
proof -
  from stop_dockerd_tracked [OF assms, of w]
  obtain ok s' es where r: "stop_dockerd w s = Inr (ok, s')"
    "trace s' = trace s @ Kill (dockerd_process_pid s) SIGTERM #
       (if kill_status w (dockerd_process_pid s) SIGTERM = 0 then []
        else [Syslog LOG_ERR ''Failed to send SIGTERM to child. Error: %s'' [ErrorMessage]]) @ es"
    "signals_and_waits es =
       Slept (time_slept w 10) #
       (if dockerd_process_pid s' = -1 then [] else [Kill (dockerd_process_pid s') SIGKILL])"
    "ok = (dockerd_process_pid s' = -1 \<or> kill_status w (dockerd_process_pid s') SIGKILL = 0)"
    "dockerd_process_pid s' = dockerd_process_pid s"
    by blast
  have a: "added s s' = Kill (dockerd_process_pid s) SIGTERM #
       (if kill_status w (dockerd_process_pid s) SIGTERM = 0 then []
        else [Syslog LOG_ERR ''Failed to send SIGTERM to child. Error: %s'' [ErrorMessage]]) @ es"
    using r(2) by (simp add: added_def)
  have "signals_and_waits (added s s') =
             [Kill (dockerd_process_pid s) SIGTERM, Slept (time_slept w 10),
              Kill (dockerd_process_pid s) SIGKILL]"
    using a r(3) r(5) assms by simp
  moreover have "ok = (kill_status w (dockerd_process_pid s) SIGKILL = 0)"
    using r(4) r(5) assms by simp
  ultimately show ?thesis using r(1) r(5) by blast
qed

text \<open>
  The daemon with pid 100 exits three seconds after the \<^verbatim>\<open>SIGTERM\<close> and its
  \<^verbatim>\<open>SIGCHLD\<close> ends the wait: pid 100 is still tracked and gets a \<^verbatim>\<open>SIGKILL\<close>,
  both when \<open>stop_dockerd\<close> is called on its own and when a change of \<^verbatim>\<open>UseTLS\<close>
  calls it.
\<close>

lemma stop_dockerd_child_exits_example:
  "stop_dockerd child_exits_world running_state =
     Inr (True,
       \<lparr>exit_code = 0, dockerd_process_pid = 100, restart_dockerd = False, loop_quit = False,
        trace = [Kill 100 SIGTERM, Slept 3, Kill 100 SIGKILL]\<rparr>) \<and>
   parameter_changed_callback child_exits_world ''root.dockerdwrapperwithcompose.UseTLS'' ''yes''
     running_state =
     Inr \<lparr>exit_code = 0, dockerd_process_pid = 100, restart_dockerd = True, loop_quit = False,
          trace =
            [Syslog LOG_INFO ''%s changed to: %s'' [Str ''UseTLS'', Str ''yes''],
             Kill 100 SIGTERM, Slept 3, Kill 100 SIGKILL]\<rparr>"
  by code_simp

theorem stop_dockerd_wait_not_cancelled_witness:
  "dockerd_process_pid running_state \<noteq> -1 \<and>
   stop_dockerd child_exits_world running_state =
     Inr (True,
       \<lparr>exit_code = 0, dockerd_process_pid = 100, restart_dockerd = False, loop_quit = False,
        trace = [Kill 100 SIGTERM, Slept 3, Kill 100 SIGKILL]\<rparr>) \<and>
   parameter_changed_callback child_exits_world ''root.dockerdwrapperwithcompose.UseTLS'' ''yes''
     running_state =
     Inr \<lparr>exit_code = 0, dockerd_process_pid = 100, restart_dockerd = True, loop_quit = False,
          trace =
            [Syslog LOG_INFO ''%s changed to: %s'' [Str ''UseTLS'', Str ''yes''],
             Kill 100 SIGTERM, Slept 3, Kill 100 SIGKILL]\<rparr> \<and>
   time_slept child_exits_world 10 = 3"
proof -
  have h: "dockerd_process_pid running_state \<noteq> -1"
    by (simp add: running_state_def)
  have t: "time_slept child_exits_world 10 = 3"
    by (simp add: time_slept_def child_exits_world_def)
  show ?thesis
    using h t stop_dockerd_child_exits_example
      stop_dockerd_wait_not_cancelled [OF h, of child_exits_world]
    by blast
qed

subsection \<open>Settings that are refused\<close>

lemma read_settings_and_start_dockerd_refused:
  assumes "\<not> fst (read_settings w \<lparr>data_root = None, use_tls = False, use_ipc_socket = False\<rparr> s)"
  shows "\<exists>s'. read_settings_and_start_dockerd w s = Inr (False, s') \<and>
           s' = snd (snd (read_settings w \<lparr>data_root = None, use_tls = False, use_ipc_socket = False\<rparr> s)) \<and>
           spawns (added s s') = [] \<and> dockerd_process_pid s' = dockerd_process_pid s"
proof -
  let ?r = "read_settings w \<lparr>data_root = None, use_tls = False, use_ipc_socket = False\<rparr> s"
  have e: "read_settings_and_start_dockerd w s = Inr (False, snd (snd ?r))"
    using assms by (simp add: read_settings_and_start_dockerd_def case_prod_beta Let_def)
  note l = logs_only_fields [OF read_settings_logs [of s w "\<lparr>data_root = None, use_tls = False, use_ipc_socket = False\<rparr>"]]
  have p: "prefix (trace s) (trace (snd (snd ?r)))"
    by (rule logs_only_prefix [OF read_settings_logs])
  have "spawns (added s (snd (snd ?r))) = []"
    using added_spawns [OF p, of "[]"] l(5) by simp
  then show ?thesis using e l(2) by simp
qed

text \<open>
  Claim C5. \<^verbatim>\<open>UseTLS\<close> is selected when the parameter can be read and is \<^verbatim>\<open>yes\<close>.
  If then one of the three certificate files is absent, whatever holds of the other two,
  \<open>read_settings\<close> fails, and \<open>read_settings_and_start_dockerd\<close> returns failure
  without having spawned a process and with the tracked pid as it was.
\<close>

theorem tls_certs_missing_no_launch:
  assumes "ax_parameter_new_ok w" and "ax_parameter_get w ''UseTLS'' = Some ''yes''"
    and "access_status w (tls_cert_path @ ''ca.pem'') F_OK \<noteq> 0 \<or>
         access_status w (tls_cert_path @ ''server-cert.pem'') F_OK \<noteq> 0 \<or>
         access_status w (tls_cert_path @ ''server-key.pem'') F_OK \<noteq> 0"
  shows "\<not> fst (read_settings w st s) \<and>
         (\<exists>s'. read_settings_and_start_dockerd w s = Inr (False, s') \<and>
               spawns (added s s') = [] \<and> dockerd_process_pid s' = dockerd_process_pid s)"
proof -
  have "\<not> fst (read_settings w st' s)" for st'
    using assms by (auto simp add: read_settings_ok tls_selection_ok)
  then show ?thesis
    using read_settings_and_start_dockerd_refused [of w s] by blast
qed

lemma tls_key_missing_example:
  "read_settings_and_start_dockerd
     (example_world\<lparr>ax_parameter_get := (\<lambda>name. Some ''yes''),
        access_status := (\<lambda>path mode. if path = tls_cert_path @ ''server-key.pem'' then -1 else 0)\<rparr>)
     initial_state =
   Inr (False,
     \<lparr>exit_code = 0, dockerd_process_pid = -1, restart_dockerd = False, loop_quit = False,
      trace =
        [System ''mkdir -p /var/spool/storage/SD_DISK/dockerd/data'',
         Syslog LOG_ERR ''One or more TLS certificates missing.'' [],
         Syslog LOG_ERR ''Cannot start using TLS, no server key found at %s''
           [Str ''/usr/local/packages/dockerdwrapperwithcompose/server-key.pem''],
         Syslog LOG_ERR ''Failed to verify tls selection'' []]\<rparr>)"
  by code_simp

theorem tls_certs_missing_no_launch_witness:
  "ax_parameter_new_ok
     (example_world\<lparr>ax_parameter_get := (\<lambda>name. Some ''yes''),
        access_status := (\<lambda>path mode. if path = tls_cert_path @ ''server-key.pem'' then -1 else 0)\<rparr>) \<and>
   ax_parameter_get
     (example_world\<lparr>ax_parameter_get := (\<lambda>name. Some ''yes''),
        access_status := (\<lambda>path mode. if path = tls_cert_path @ ''server-key.pem'' then -1 else 0)\<rparr>)
     ''UseTLS'' = Some ''yes'' \<and>
   access_status
     (example_world\<lparr>ax_parameter_get := (\<lambda>name. Some ''yes''),
        access_status := (\<lambda>path mode. if path = tls_cert_path @ ''server-key.pem'' then -1 else 0)\<rparr>)
     (tls_cert_path @ ''server-key.pem'') F_OK \<noteq> 0 \<and>
   (case read_settings_and_start_dockerd
      (example_world\<lparr>ax_parameter_get := (\<lambda>name. Some ''yes''),
        access_status := (\<lambda>path mode. if path = tls_cert_path @ ''server-key.pem'' then -1 else 0)\<rparr>)
      initial_state of
      Inl f \<Rightarrow> False
    | Inr (ok, s') \<Rightarrow> \<not> ok \<and> spawns (trace s') = [] \<and> dockerd_process_pid s' = -1)"
proof -
  let ?w = "example_world\<lparr>ax_parameter_get := (\<lambda>name. Some ''yes''),
        access_status := (\<lambda>path mode. if path = tls_cert_path @ ''server-key.pem'' then -1 else 0)\<rparr>"
  have a: "ax_parameter_new_ok ?w" by (simp add: example_world_def)
  have b: "ax_parameter_get ?w ''UseTLS'' = Some ''yes''" by simp
  have c: "access_status ?w (tls_cert_path @ ''server-key.pem'') F_OK \<noteq> 0" by simp
  have d: "access_status ?w (tls_cert_path @ ''ca.pem'') F_OK \<noteq> 0 \<or>
         access_status ?w (tls_cert_path @ ''server-cert.pem'') F_OK \<noteq> 0 \<or>
         access_status ?w (tls_cert_path @ ''server-key.pem'') F_OK \<noteq> 0"
    using c by blast
  show ?thesis
    using a b c tls_certs_missing_no_launch [OF a b d, of "\<lparr>data_root = None, use_tls = False, use_ipc_socket = False\<rparr>" initial_state]
    by (simp add: tls_key_missing_example)
qed

lemma added_append:
  assumes "prefix (trace s) (trace s2)" and "trace s' = trace s2 @ es"
  shows "added s s' = added s s2 @ es"
  using assms prefix_length_le [OF assms(1)] by (simp add: added_def)

lemma setup_sdcard_bad_filesystem:
  assumes "stat_dev w droot = Some dev" and "proc_mounts w = Some mnts"
    and "find_mount w dev mnts = Some fs" and "fs = ''vfat'' \<or> fs = ''exfat''"
  shows "\<not> fst (setup_sdcard w droot s)"
    and "system_status w (''mkdir -p '' @ droot) = 0 \<Longrightarrow>
         trace (snd (setup_sdcard w droot s)) =
           trace s @
           [System (''mkdir -p '' @ droot),
            Syslog LOG_ERR
              (''The SD card at %s uses file system %s which does not support '' @
               ''Unix file permissions. Please reformat to a file system that '' @
               ''support Unix file permissions, such as ext4 or xfs.'')
              [Str droot, Str fs]]"
  using assms
  by (auto simp add: setup_sdcard_def Let_def get_filesystem_of_path_def)

lemma read_settings_sd_failed:
  assumes "ax_parameter_new_ok w" and "ax_parameter_get w ''SDCardSupport'' = Some ''yes''"
    and "\<not> fst (setup_sdcard w (dockerd_path_on_sd_card @ ''/data'') s)"
  shows "\<not> fst (read_settings w st s)"
    and "snd (snd (read_settings w st s)) =
           syslog LOG_ERR ''Failed to setup sd_card'' []
             (syslog LOG_ERR ''Failed to setup SD card.'' []
                (snd (setup_sdcard w (dockerd_path_on_sd_card @ ''/data'') s)))"
  using assms
  by (simp_all add: read_settings_def get_and_verify_sd_card_selection_def is_parameter_yes_def
        get_parameter_value_def Let_def case_prod_beta)

text \<open>
  Claim C6. \<^verbatim>\<open>SDCardSupport\<close> is selected when the parameter can be read and is
  \<^verbatim>\<open>yes\<close>. The file system of the storage path is the type of the first entry of
  \<^verbatim>\<open>/proc/mounts\<close> on the device of the path. If that type is \<^verbatim>\<open>vfat\<close> or
  \<^verbatim>\<open>exfat\<close>, \<open>read_settings\<close> fails, and \<open>read_settings_and_start_dockerd\<close>
  returns failure without having spawned a process: it does not go on without the SD
  card. The code has no error values; the failure is reported in the log, whose last two
  lines are the two storage errors, and when the directory could be made the log of the
  call is the \<^verbatim>\<open>mkdir\<close>, the line naming the file system, and these two.
\<close>

theorem sd_card_bad_filesystem_refused:
  assumes "ax_parameter_new_ok w" and "ax_parameter_get w ''SDCardSupport'' = Some ''yes''"
    and "stat_dev w (dockerd_path_on_sd_card @ ''/data'') = Some dev"
    and "proc_mounts w = Some mnts" and "find_mount w dev mnts = Some fs"
    and "fs = ''vfat'' \<or> fs = ''exfat''"
  shows "\<not> fst (read_settings w st s) \<and>
         (\<exists>s'. read_settings_and_start_dockerd w s = Inr (False, s') \<and>
               spawns (added s s') = [] \<and> dockerd_process_pid s' = dockerd_process_pid s \<and>
               take 2 (rev (added s s')) =
                 [Syslog LOG_ERR ''Failed to setup sd_card'' [],
                  Syslog LOG_ERR ''Failed to setup SD card.'' []] \<and>
               (system_status w (''mkdir -p '' @ dockerd_path_on_sd_card @ ''/data'') = 0 \<longrightarrow>
                  added s s' =
                    [System (''mkdir -p '' @ dockerd_path_on_sd_card @ ''/data''),
                     Syslog LOG_ERR
                       (''The SD card at %s uses file system %s which does not support '' @
                        ''Unix file permissions. Please reformat to a file system that '' @
                        ''support Unix file permissions, such as ext4 or xfs.'')
                       [Str (dockerd_path_on_sd_card @ ''/data''), Str fs],
                     Syslog LOG_ERR ''Failed to setup SD card.'' [],
                     Syslog LOG_ERR ''Failed to setup sd_card'' []]))"
proof -
  let ?d = "dockerd_path_on_sd_card @ ''/data''"
  let ?st0 = "\<lparr>data_root = None, use_tls = False, use_ipc_socket = False\<rparr>"
  note b = setup_sdcard_bad_filesystem [OF assms(3-6)]
  have f: "\<not> fst (read_settings w st' s)" for st'
    by (rule read_settings_sd_failed(1) [OF assms(1,2) b(1)])
  define s2 where "s2 = snd (setup_sdcard w ?d s)"
  have t: "snd (snd (read_settings w ?st0 s)) =
           syslog LOG_ERR ''Failed to setup sd_card'' []
             (syslog LOG_ERR ''Failed to setup SD card.'' [] s2)"
    unfolding s2_def by (rule read_settings_sd_failed(2) [OF assms(1,2) b(1)])
  have p: "prefix (trace s) (trace s2)"
    unfolding s2_def by (rule logs_only_prefix [OF setup_sdcard_logs])
  obtain s' where r: "read_settings_and_start_dockerd w s = Inr (False, s')"
    "s' = snd (snd (read_settings w ?st0 s))"
    "spawns (added s s') = []" "dockerd_process_pid s' = dockerd_process_pid s"
    using read_settings_and_start_dockerd_refused [OF f] by blast
  have a: "added s s' = added s s2 @
             [Syslog LOG_ERR ''Failed to setup SD card.'' [],
              Syslog LOG_ERR ''Failed to setup sd_card'' []]"
    using r(2) t by (intro added_append [OF p]) simp
  have l: "take 2 (rev (added s s')) =
                 [Syslog LOG_ERR ''Failed to setup sd_card'' [],
                  Syslog LOG_ERR ''Failed to setup SD card.'' []]"
    using a by simp
  have m: "system_status w (''mkdir -p '' @ ?d) = 0 \<longrightarrow>
             added s s2 =
               [System (''mkdir -p '' @ ?d),
                Syslog LOG_ERR
                  (''The SD card at %s uses file system %s which does not support '' @
                   ''Unix file permissions. Please reformat to a file system that '' @
                   ''support Unix file permissions, such as ext4 or xfs.'')
                  [Str ?d, Str fs]]"
    using b(2) [of s] by (simp add: added_def s2_def)
  show ?thesis using f r(1,3,4) l m a by auto
qed


lemma sd_card_vfat_example:
  "read_settings_and_start_dockerd
     (example_world\<lparr>ax_parameter_get := (\<lambda>name. Some ''yes''),
        proc_mounts := Some [(''/var/spool/storage/SD_DISK'', ''vfat'')]\<rparr>)
     initial_state =
   Inr (False,
     \<lparr>exit_code = 0, dockerd_process_pid = -1, restart_dockerd = False, loop_quit = False,
      trace =
        [System ''mkdir -p /var/spool/storage/SD_DISK/dockerd/data'',
         Syslog LOG_ERR
           (''The SD card at %s uses file system %s which does not support '' @
            ''Unix file permissions. Please reformat to a file system that '' @
            ''support Unix file permissions, such as ext4 or xfs.'')
           [Str ''/var/spool/storage/SD_DISK/dockerd/data'', Str ''vfat''],
         Syslog LOG_ERR ''Failed to setup SD card.'' [],
         Syslog LOG_ERR ''Failed to setup sd_card'' []]\<rparr>)"
  by code_simp

theorem sd_card_bad_filesystem_refused_witness:
  "ax_parameter_new_ok
     (example_world\<lparr>ax_parameter_get := (\<lambda>name. Some ''yes''),
        proc_mounts := Some [(''/var/spool/storage/SD_DISK'', ''vfat'')]\<rparr>) \<and>
   ax_parameter_get
     (example_world\<lparr>ax_parameter_get := (\<lambda>name. Some ''yes''),
        proc_mounts := Some [(''/var/spool/storage/SD_DISK'', ''vfat'')]\<rparr>)
     ''SDCardSupport'' = Some ''yes'' \<and>
   stat_dev
     (example_world\<lparr>ax_parameter_get := (\<lambda>name. Some ''yes''),
        proc_mounts := Some [(''/var/spool/storage/SD_DISK'', ''vfat'')]\<rparr>)
     (dockerd_path_on_sd_card @ ''/data'') = Some 1 \<and>
   find_mount
     (example_world\<lparr>ax_parameter_get := (\<lambda>name. Some ''yes''),
        proc_mounts := Some [(''/var/spool/storage/SD_DISK'', ''vfat'')]\<rparr>)
     1 [(''/var/spool/storage/SD_DISK'', ''vfat'')] = Some ''vfat'' \<and>
   (case read_settings_and_start_dockerd
      (example_world\<lparr>ax_parameter_get := (\<lambda>name. Some ''yes''),
        proc_mounts := Some [(''/var/spool/storage/SD_DISK'', ''vfat'')]\<rparr>)
      initial_state of
      Inl f \<Rightarrow> False
    | Inr (ok, s') \<Rightarrow> \<not> ok \<and> spawns (trace s') = [] \<and> dockerd_process_pid s' = -1 \<and>
        last (trace s') = Syslog LOG_ERR ''Failed to setup sd_card'' [])"
proof -
  let ?w = "example_world\<lparr>ax_parameter_get := (\<lambda>name. Some ''yes''),
        proc_mounts := Some [(''/var/spool/storage/SD_DISK'', ''vfat'')]\<rparr>"
  have a: "ax_parameter_new_ok ?w" by (simp add: example_world_def)
  have b: "ax_parameter_get ?w ''SDCardSupport'' = Some ''yes''" by simp
  have c: "stat_dev ?w (dockerd_path_on_sd_card @ ''/data'') = Some 1"
    by (simp add: example_world_def)
  have d: "proc_mounts ?w = Some [(''/var/spool/storage/SD_DISK'', ''vfat'')]" by simp
  have e: "find_mount ?w 1 [(''/var/spool/storage/SD_DISK'', ''vfat'')] = Some ''vfat''"
    by (simp add: example_world_def)
  have f: "''vfat'' = ''vfat'' \<or> ''vfat'' = ''exfat''" by simp
  show ?thesis
    using a b c e
      sd_card_bad_filesystem_refused [OF a b c d e f,
        of "\<lparr>data_root = None, use_tls = False, use_ipc_socket = False\<rparr>" initial_state]
    by (simp add: sd_card_vfat_example)
qed

subsection \<open>The argument vector\<close>

text \<open>
  Claim C3. For every settings record that \<open>read_settings\<close> returns with success, the
  argument vector that \<open>start_dockerd\<close> builds and splits is the one the specification
  words, and \<open>start_dockerd\<close> hands exactly this vector to \<^verbatim>\<open>g_spawn_async\<close>, once.
\<close>

theorem launch_argument_vector:
  assumes "read_settings w st0 s0 = (True, st, s1)"
  shows "dockerd_args st = Inr (spec_argument_vector st) \<and>
         (\<exists>ok s'. start_dockerd w' st s = Inr (ok, s') \<and>
                  spawns (added s s') = [spec_argument_vector st])"
proof -
  have f: "fst (read_settings w st0 s0)" and st: "st = fst (snd (read_settings w st0 s0))"
    using assms by simp_all
  have a: "dockerd_args st = Inr (spec_argument_vector st)"
    unfolding st by (rule read_settings_validated [OF f])
  obtain ok s' where r: "start_dockerd w' st s = Inr (ok, s')"
    "spawns (trace s') = spawns (trace s) @ [spec_argument_vector st]"
    using start_dockerd_result [OF a, of w' s] by blast
  have "spawns (added s s') = [spec_argument_vector st]"
    by (rule added_spawns [OF start_dockerd_prefix [OF r(1)] r(2)])
  then show ?thesis using a r(1) by blast
qed

lemma read_settings_all_yes_example:
  "read_settings (example_world\<lparr>ax_parameter_get := (\<lambda>name. Some ''yes'')\<rparr>)
     \<lparr>data_root = None, use_tls = False, use_ipc_socket = False\<rparr> initial_state =
   (True,
    \<lparr>data_root = Some ''/var/spool/storage/SD_DISK/dockerd/data'', use_tls = True,
     use_ipc_socket = True\<rparr>,
    \<lparr>exit_code = 0, dockerd_process_pid = -1, restart_dockerd = False, loop_quit = False,
     trace = [System ''mkdir -p /var/spool/storage/SD_DISK/dockerd/data'']\<rparr>)"
  by code_simp

lemma spec_argument_vector_all_yes_example:
  "spec_argument_vector
     \<lparr>data_root = Some ''/var/spool/storage/SD_DISK/dockerd/data'', use_tls = True,
      use_ipc_socket = True\<rparr> =
   [''dockerd'', ''--config-file'',
    ''/usr/local/packages/dockerdwrapperwithcompose/localdata/daemon.json'',
    ''-H'', ''tcp://0.0.0.0:2376'', ''--tlsverify'',
    ''--tlscacert'', ''/usr/local/packages/dockerdwrapperwithcompose/ca.pem'',
    ''--tlscert'', ''/usr/local/packages/dockerdwrapperwithcompose/server-cert.pem'',
    ''--tlskey'', ''/usr/local/packages/dockerdwrapperwithcompose/server-key.pem'',
    ''--data-root'', ''/var/spool/storage/SD_DISK/dockerd/data'',
    ''-H'', ''unix:///var/run/docker.sock'']"
  by (simp add: spec_argument_vector_def)

theorem launch_argument_vector_witness:
  "read_settings (example_world\<lparr>ax_parameter_get := (\<lambda>name. Some ''yes'')\<rparr>)
     \<lparr>data_root = None, use_tls = False, use_ipc_socket = False\<rparr> initial_state =
   (True,
    \<lparr>data_root = Some ''/var/spool/storage/SD_DISK/dockerd/data'', use_tls = True,
     use_ipc_socket = True\<rparr>,
    \<lparr>exit_code = 0, dockerd_process_pid = -1, restart_dockerd = False, loop_quit = False,
     trace = [System ''mkdir -p /var/spool/storage/SD_DISK/dockerd/data'']\<rparr>) \<and>
   dockerd_args
     \<lparr>data_root = Some ''/var/spool/storage/SD_DISK/dockerd/data'', use_tls = True,
      use_ipc_socket = True\<rparr> =
   Inr [''dockerd'', ''--config-file'',
        ''/usr/local/packages/dockerdwrapperwithcompose/localdata/daemon.json'',
        ''-H'', ''tcp://0.0.0.0:2376'', ''--tlsverify'',
        ''--tlscacert'', ''/usr/local/packages/dockerdwrapperwithcompose/ca.pem'',
        ''--tlscert'', ''/usr/local/packages/dockerdwrapperwithcompose/server-cert.pem'',
        ''--tlskey'', ''/usr/local/packages/dockerdwrapperwithcompose/server-key.pem'',
        ''--data-root'', ''/var/spool/storage/SD_DISK/dockerd/data'',
        ''-H'', ''unix:///var/run/docker.sock'']"
  using read_settings_all_yes_example
    launch_argument_vector [OF read_settings_all_yes_example, of example_world initial_state]
  by (simp only: spec_argument_vector_all_yes_example simp_thms)

subsection \<open>The exit callback\<close>








subsection \<open>The parameter callback\<close>

lemma note_changed_fields [simp]:
  "exit_code (note_changed n v p s) = exit_code s"
  "dockerd_process_pid (note_changed n v p s) = dockerd_process_pid s"
  "loop_quit (note_changed n v p s) = loop_quit s"
  "restart_dockerd s \<Longrightarrow> restart_dockerd (note_changed n v p s)"
  "spawns (trace (note_changed n v p s)) = spawns (trace s)"
  "signals_and_waits (trace (note_changed n v p s)) = signals_and_waits (trace s)"
  by (simp_all add: note_changed_def)

lemma note_changes_fields [simp]:
  "exit_code (note_changes n v s) = exit_code s"
  "dockerd_process_pid (note_changes n v s) = dockerd_process_pid s"
  "loop_quit (note_changes n v s) = loop_quit s"
  "spawns (trace (note_changes n v s)) = spawns (trace s)"
  "signals_and_waits (trace (note_changes n v s)) = signals_and_waits (trace s)"
  by (simp_all add: note_changes_def ax_parameters_def)

lemma note_changes_unwatched:
  "n \<notin> set ax_parameters \<Longrightarrow> note_changes n v s = s"
  by (simp add: note_changes_def ax_parameters_def note_changed_def)

lemma note_changes_watched:
  "n \<in> set ax_parameters \<Longrightarrow>
   note_changes n v s =
     (syslog LOG_INFO ''%s changed to: %s'' [Str n, Str v] s)\<lparr>restart_dockerd := True\<rparr>"
  by (auto simp add: note_changes_def ax_parameters_def note_changed_def)

lemma parameter_changed_callback_result:
  assumes "length ''root.dockerdwrapperwithcompose.'' \<le> length name"
  shows "\<exists>stopped s2.
     stop_dockerd w (note_changes (drop (length ''root.dockerdwrapperwithcompose.'') name) val s) =
       Inr (stopped, s2) \<and>
     parameter_changed_callback w name val s =
       Inr (if stopped then s2
            else (syslog LOG_ERR
                    (''Failed to stop dockerd process. Please restart the acap '' @ ''manually.'')
                    [] s2)\<lparr>exit_code := -1\<rparr>)"
proof -
  obtain stopped s2 where
    r: "stop_dockerd w (note_changes (drop (length ''root.dockerdwrapperwithcompose.'') name) val s) =
       Inr (stopped, s2)"
    using stop_dockerd_result by blast
  have "parameter_changed_callback w name val s =
       Inr (if stopped then s2
            else (syslog LOG_ERR
                    (''Failed to stop dockerd process. Please restart the acap '' @ ''manually.'')
                    [] s2)\<lparr>exit_code := -1\<rparr>)"
    using assms r unfolding parameter_changed_callback_def Let_def
    by (simp del: length_greater_0_conv)
  then show ?thesis using r by blast
qed


lemma stop_dockerd_elapsed_loop_quit:
  assumes "sleep_outcome w = Elapsed" and "stop_dockerd w s = Inr (ok, s2)"
  shows "loop_quit s2 = loop_quit s"
  using assms
  by (auto simp add: stop_dockerd_def sleep_def Let_def split: if_splits)

text \<open>
  Claim C9, as the code has it. A notification whose name, after the prefix, is none of
  the three watched keys leaves the state as it was before \<open>stop_dockerd\<close> is called,
  and the handler is \<open>stop_dockerd\<close> on that state followed by the check of its result:
  the restart flag is after the handler what it was before it. With a tracked pid the
  first effect is the \<^verbatim>\<open>SIGTERM\<close> to it. If no restart was pending before, none is
  pending afterwards and nothing has been spawned, and the exit callback, whenever it
  then runs, asks the loop to quit and spawns nothing: the program ends instead of
  restarting the daemon.
\<close>

theorem unwatched_parameter_stops_daemon:
  assumes "length ''root.dockerdwrapperwithcompose.'' \<le> length name"
    and "drop (length ''root.dockerdwrapperwithcompose.'') name \<notin> set ax_parameters"
  shows "\<exists>stopped s2 s'.
     stop_dockerd w s = Inr (stopped, s2) \<and>
     parameter_changed_callback w name val s = Inr s' \<and>
     s' = (if stopped then s2
           else (syslog LOG_ERR
                   (''Failed to stop dockerd process. Please restart the acap '' @ ''manually.'')
                   [] s2)\<lparr>exit_code := -1\<rparr>) \<and>
     restart_dockerd s' = restart_dockerd s \<and>
     (dockerd_process_pid s \<noteq> -1 \<longrightarrow>
        take 1 (added s s') = [Kill (dockerd_process_pid s) SIGTERM]) \<and>
     (\<not> restart_dockerd s \<longrightarrow>
        \<not> restart_dockerd s' \<and> spawns (added s s') = [] \<and>
        (\<forall>w' pid status. \<exists>s''.
           dockerd_process_exited_callback w' pid status s' = Inr s'' \<and> loop_quit s'' \<and>
           spawns (added s s'') = []))"
proof -
  let ?n = "drop (length ''root.dockerdwrapperwithcompose.'') name"
  have u: "note_changes ?n val s = s"
    by (rule note_changes_unwatched [OF assms(2)])
  from parameter_changed_callback_result [OF assms(1), of w val s]
  obtain stopped s2 where r: "stop_dockerd w s = Inr (stopped, s2)"
    "parameter_changed_callback w name val s =
       Inr (if stopped then s2
            else (syslog LOG_ERR
                    (''Failed to stop dockerd process. Please restart the acap '' @ ''manually.'')
                    [] s2)\<lparr>exit_code := -1\<rparr>)"
    unfolding u by blast
  define s' where "s' = (if stopped then s2
            else (syslog LOG_ERR
                    (''Failed to stop dockerd process. Please restart the acap '' @ ''manually.'')
                    [] s2)\<lparr>exit_code := -1\<rparr>)"
  have s': "restart_dockerd s' = restart_dockerd s2" "prefix (trace s2) (trace s')"
    "spawns (trace s') = spawns (trace s2)"
    by (simp_all add: s'_def)
  from stop_dockerd_result [of w s] r(1)
  have q: "prefix (trace s) (trace s2)"
    "\<not> restart_dockerd s \<longrightarrow> \<not> restart_dockerd s2 \<and> spawns (trace s2) = spawns (trace s)"
    "restart_dockerd s2 = restart_dockerd s"
    by auto
  have rs: "restart_dockerd s' = restart_dockerd s"
    using q(3) s'(1) by simp
  have p: "prefix (trace s) (trace s')"
    using q(1) s'(2) by (rule prefix_order.trans)
  have k: "dockerd_process_pid s \<noteq> -1 \<longrightarrow>
        take 1 (added s s') = [Kill (dockerd_process_pid s) SIGTERM]"
  proof
    assume t: "dockerd_process_pid s \<noteq> -1"
    from stop_dockerd_tracked [OF t, of w] r(1)
    obtain es where "trace s2 = trace s @ Kill (dockerd_process_pid s) SIGTERM #
       (if kill_status w (dockerd_process_pid s) SIGTERM = 0 then []
        else [Syslog LOG_ERR ''Failed to send SIGTERM to child. Error: %s'' [ErrorMessage]]) @ es"
      by auto
    then have "\<exists>fs. trace s' = trace s @ Kill (dockerd_process_pid s) SIGTERM # fs"
      by (simp add: s'_def)
    then show "take 1 (added s s') = [Kill (dockerd_process_pid s) SIGTERM]"
      by (auto simp add: added_def)
  qed
  have n: "\<not> restart_dockerd s \<longrightarrow>
        \<not> restart_dockerd s' \<and> spawns (added s s') = [] \<and>
        (\<forall>w' pid status. \<exists>s''.
           dockerd_process_exited_callback w' pid status s' = Inr s'' \<and> loop_quit s'' \<and>
           spawns (added s s'') = [])"
  proof
    assume nr: "\<not> restart_dockerd s"
    then have a: "\<not> restart_dockerd s'" "spawns (trace s') = spawns (trace s)"
      using q(2) s'(1,3) by simp_all
    have b: "spawns (added s s') = []"
      using added_spawns [OF p, of "[]"] a(2) by simp
    have c: "\<exists>s''. dockerd_process_exited_callback w' pid status s' = Inr s'' \<and> loop_quit s'' \<and>
           spawns (added s s'') = []" for w' pid status
    proof -
      from callback_result [of w' pid status s'] a(1)
      obtain s'' where d: "dockerd_process_exited_callback w' pid status s' = Inr s''"
        "loop_quit s''" "spawns (trace s'') = spawns (trace s')"
        by auto
      have "prefix (trace s) (trace s'')"
        using p callback_prefix [OF d(1)] by (rule prefix_order.trans)
      from added_spawns [OF this, of "[]"] d(3) a(2) have "spawns (added s s'') = []" by simp
      then show ?thesis using d(1,2) by blast
    qed
    show "\<not> restart_dockerd s' \<and> spawns (added s s') = [] \<and>
        (\<forall>w' pid status. \<exists>s''.
           dockerd_process_exited_callback w' pid status s' = Inr s'' \<and> loop_quit s'' \<and>
           spawns (added s s'') = [])"
      using a(1) b c by blast
  qed
  have r2: "parameter_changed_callback w name val s = Inr s'"
    using r(2) by (simp add: s'_def)
  show ?thesis
    using r(1) r2 s'_def rs k n by blast
qed

lemma unwatched_parameter_example:
  "parameter_changed_callback example_world ''root.dockerdwrapperwithcompose.Verbose'' ''yes''
     running_state =
   Inr \<lparr>exit_code = 0, dockerd_process_pid = 100, restart_dockerd = False, loop_quit = False,
        trace = [Kill 100 SIGTERM, Slept 10, Kill 100 SIGKILL]\<rparr>"
  by code_simp

lemma exit_after_unwatched_parameter_example:
  "dockerd_process_exited_callback example_world 100 0
     \<lparr>exit_code = 0, dockerd_process_pid = 100, restart_dockerd = False, loop_quit = False,
      trace = [Kill 100 SIGTERM, Slept 10, Kill 100 SIGKILL]\<rparr> =
   Inr \<lparr>exit_code = 0, dockerd_process_pid = -1, restart_dockerd = False, loop_quit = True,
        trace = [Kill 100 SIGTERM, Slept 10, Kill 100 SIGKILL, ClosePid 100,
                 Remove ''/var/run/docker.pid'']\<rparr>"
  by code_simp

theorem unwatched_parameter_stops_daemon_witness:
  "length ''root.dockerdwrapperwithcompose.'' \<le> length ''root.dockerdwrapperwithcompose.Verbose'' \<and>
   drop (length ''root.dockerdwrapperwithcompose.'') ''root.dockerdwrapperwithcompose.Verbose''
     \<notin> set ax_parameters \<and>
   dockerd_process_pid running_state \<noteq> -1 \<and> \<not> restart_dockerd running_state \<and>
   parameter_changed_callback example_world ''root.dockerdwrapperwithcompose.Verbose'' ''yes''
     running_state =
   Inr \<lparr>exit_code = 0, dockerd_process_pid = 100, restart_dockerd = False, loop_quit = False,
        trace = [Kill 100 SIGTERM, Slept 10, Kill 100 SIGKILL]\<rparr> \<and>
   dockerd_process_exited_callback example_world 100 0
     \<lparr>exit_code = 0, dockerd_process_pid = 100, restart_dockerd = False, loop_quit = False,
      trace = [Kill 100 SIGTERM, Slept 10, Kill 100 SIGKILL]\<rparr> =
   Inr \<lparr>exit_code = 0, dockerd_process_pid = -1, restart_dockerd = False, loop_quit = True,
        trace = [Kill 100 SIGTERM, Slept 10, Kill 100 SIGKILL, ClosePid 100,
                 Remove ''/var/run/docker.pid'']\<rparr>"
proof -
  have a: "length ''root.dockerdwrapperwithcompose.'' \<le> length ''root.dockerdwrapperwithcompose.Verbose''"
    by simp
  have b: "drop (length ''root.dockerdwrapperwithcompose.'') ''root.dockerdwrapperwithcompose.Verbose''
     \<notin> set ax_parameters"
    by (simp add: ax_parameters_def)
  have c: "dockerd_process_pid running_state \<noteq> -1" "\<not> restart_dockerd running_state"
    by (simp_all add: running_state_def initial_state_def)
  show ?thesis
    using a b c unwatched_parameter_example exit_after_unwatched_parameter_example
      unwatched_parameter_stops_daemon [OF a b, of example_world running_state "''yes''"]
    by blast
qed

text \<open>
  The claim as it was worded, that after a notification outside the three keys the
  child-exit handling ends the program instead of restarting the daemon, fails when a
  restart is pending. A change of \<^verbatim>\<open>UseTLS\<close> while pid 100 is tracked sets the restart
  flag; the exit callback has not run yet when a notification for \<^verbatim>\<open>Verbose\<close> is
  handled, which stops the daemon once more and leaves the flag set; the exit callback
  that follows starts the daemon again, as pid 200, and does not ask the loop to quit.
\<close>

theorem unwatched_parameter_restart_pending_counterexample:
  "parameter_changed_callback example_world ''root.dockerdwrapperwithcompose.UseTLS'' ''no''
     running_state =
     Inr \<lparr>exit_code = 0, dockerd_process_pid = 100, restart_dockerd = True, loop_quit = False,
          trace =
            [Syslog LOG_INFO ''%s changed to: %s'' [Str ''UseTLS'', Str ''no''],
             Kill 100 SIGTERM, Slept 10, Kill 100 SIGKILL]\<rparr> \<and>
   parameter_changed_callback example_world ''root.dockerdwrapperwithcompose.Verbose'' ''yes''
     \<lparr>exit_code = 0, dockerd_process_pid = 100, restart_dockerd = True, loop_quit = False,
      trace =
        [Syslog LOG_INFO ''%s changed to: %s'' [Str ''UseTLS'', Str ''no''],
         Kill 100 SIGTERM, Slept 10, Kill 100 SIGKILL]\<rparr> =
     Inr \<lparr>exit_code = 0, dockerd_process_pid = 100, restart_dockerd = True, loop_quit = False,
          trace =
            [Syslog LOG_INFO ''%s changed to: %s'' [Str ''UseTLS'', Str ''no''],
             Kill 100 SIGTERM, Slept 10, Kill 100 SIGKILL,
             Kill 100 SIGTERM, Slept 10, Kill 100 SIGKILL]\<rparr> \<and>
   dockerd_process_exited_callback respawn_world 100 0
     \<lparr>exit_code = 0, dockerd_process_pid = 100, restart_dockerd = True, loop_quit = False,
      trace =
        [Syslog LOG_INFO ''%s changed to: %s'' [Str ''UseTLS'', Str ''no''],
         Kill 100 SIGTERM, Slept 10, Kill 100 SIGKILL,
         Kill 100 SIGTERM, Slept 10, Kill 100 SIGKILL]\<rparr> =
     Inr \<lparr>exit_code = 0, dockerd_process_pid = 200, restart_dockerd = False, loop_quit = False,
          trace =
            [Syslog LOG_INFO ''%s changed to: %s'' [Str ''UseTLS'', Str ''no''],
             Kill 100 SIGTERM, Slept 10, Kill 100 SIGKILL,
             Kill 100 SIGTERM, Slept 10, Kill 100 SIGKILL,
             ClosePid 100, Remove ''/var/run/docker.pid'',
             Syslog LOG_INFO ''%s''
              [Str ''Starting dockerd in unsecured mode using /var/lib/docker as storage without IPC socket.''],
             Spawn
              [''dockerd'', ''--config-file'',
               ''/usr/local/packages/dockerdwrapperwithcompose/localdata/daemon.json'',
               ''-H'', ''tcp://0.0.0.0:2375'', ''--tls=false''],
             ChildWatchAdd 200]\<rparr>"
  by code_simp

text \<open>
  Claim C1, as the code has it. When \<open>stop_dockerd\<close> fails in the parameter callback,
  the callback logs the failure and sets the exit code to \<open>-1\<close>. It does not call
  \<^verbatim>\<open>g_main_loop_quit\<close>: the request to quit the loop is as \<open>stop_dockerd\<close> left it,
  and as it was before the callback when nothing interrupted the wait. The log line asks
  for a manual restart.
\<close>

theorem stop_failure_recorded:
  assumes "length ''root.dockerdwrapperwithcompose.'' \<le> length name"
    and "stop_dockerd w (note_changes (drop (length ''root.dockerdwrapperwithcompose.'') name) val s) =
           Inr (False, s2)"
  shows "\<exists>s'. parameter_changed_callback w name val s = Inr s' \<and>
           exit_code s' = -1 \<and> loop_quit s' = loop_quit s2 \<and>
           trace s' = trace s2 @
             [Syslog LOG_ERR
                (''Failed to stop dockerd process. Please restart the acap '' @ ''manually.'') []] \<and>
           (sleep_outcome w = Elapsed \<longrightarrow> loop_quit s' = loop_quit s)"
proof -
  from parameter_changed_callback_result [OF assms(1), of w val s] assms(2)
  have r: "parameter_changed_callback w name val s =
       Inr ((syslog LOG_ERR
               (''Failed to stop dockerd process. Please restart the acap '' @ ''manually.'')
               [] s2)\<lparr>exit_code := -1\<rparr>)"
    by auto
  have "sleep_outcome w = Elapsed \<longrightarrow> loop_quit s2 = loop_quit s"
    using stop_dockerd_elapsed_loop_quit [OF _ assms(2)] by simp
  then show ?thesis using r by simp
qed

text \<open>
  The claim as it was worded, that the handler then requests the loop to exit, fails:
  in the world where every \<^verbatim>\<open>kill\<close> fails, a change of \<^verbatim>\<open>UseTLS\<close> while pid 100
  is tracked makes \<open>stop_dockerd\<close> fail, and the callback returns with the exit code
  \<open>-1\<close> and the loop not asked to quit.
\<close>

theorem stop_failure_loop_exit_counterexample:
  "stop_dockerd unkillable_world (note_changes ''UseTLS'' ''yes'' running_state) =
     Inr (False,
       \<lparr>exit_code = 0, dockerd_process_pid = 100, restart_dockerd = True, loop_quit = False,
        trace =
          [Syslog LOG_INFO ''%s changed to: %s'' [Str ''UseTLS'', Str ''yes''],
           Kill 100 SIGTERM,
           Syslog LOG_ERR ''Failed to send SIGTERM to child. Error: %s'' [ErrorMessage],
           Slept 10, Kill 100 SIGKILL,
           Syslog LOG_ERR ''Failed to send SIGKILL to child. Error: %s'' [ErrorMessage]]\<rparr>) \<and>
   parameter_changed_callback unkillable_world ''root.dockerdwrapperwithcompose.UseTLS'' ''yes''
     running_state =
     Inr \<lparr>exit_code = -1, dockerd_process_pid = 100, restart_dockerd = True, loop_quit = False,
          trace =
            [Syslog LOG_INFO ''%s changed to: %s'' [Str ''UseTLS'', Str ''yes''],
             Kill 100 SIGTERM,
             Syslog LOG_ERR ''Failed to send SIGTERM to child. Error: %s'' [ErrorMessage],
             Slept 10, Kill 100 SIGKILL,
             Syslog LOG_ERR ''Failed to send SIGKILL to child. Error: %s'' [ErrorMessage],
             Syslog LOG_ERR ''Failed to stop dockerd process. Please restart the acap manually.''
               []]\<rparr>"
  by code_simp

lemma stop_fails_example:
  "stop_dockerd unkillable_world
     (note_changes (drop (length ''root.dockerdwrapperwithcompose.'')
        ''root.dockerdwrapperwithcompose.UseTLS'') ''yes'' running_state) =
     Inr (False,
       \<lparr>exit_code = 0, dockerd_process_pid = 100, restart_dockerd = True, loop_quit = False,
        trace =
          [Syslog LOG_INFO ''%s changed to: %s'' [Str ''UseTLS'', Str ''yes''],
           Kill 100 SIGTERM,
           Syslog LOG_ERR ''Failed to send SIGTERM to child. Error: %s'' [ErrorMessage],
           Slept 10, Kill 100 SIGKILL,
           Syslog LOG_ERR ''Failed to send SIGKILL to child. Error: %s'' [ErrorMessage]]\<rparr>)"
  by code_simp

theorem stop_failure_recorded_witness:
  "length ''root.dockerdwrapperwithcompose.'' \<le> length ''root.dockerdwrapperwithcompose.UseTLS'' \<and>
   sleep_outcome unkillable_world = Elapsed \<and>
   (case parameter_changed_callback unkillable_world ''root.dockerdwrapperwithcompose.UseTLS''
           ''yes'' running_state of
      Inl f \<Rightarrow> False
    | Inr s' \<Rightarrow> exit_code s' = -1 \<and> loop_quit s' = loop_quit running_state)"
proof -
  have a: "length ''root.dockerdwrapperwithcompose.'' \<le> length ''root.dockerdwrapperwithcompose.UseTLS''"
    by simp
  have b: "sleep_outcome unkillable_world = Elapsed"
    by (simp add: unkillable_world_def example_world_def)
  show ?thesis
    using a b stop_failure_recorded [OF a stop_fails_example]
    by auto
qed

subsection \<open>The exit code\<close>

lemma parameter_changed_callback_exit_code:
  assumes "parameter_changed_callback w name val s = Inr s'"
  shows "exit_code s' = exit_code s \<or> exit_code s' = -1"
proof (cases "length name < length ''root.dockerdwrapperwithcompose.''")
  case True
  then show ?thesis using assms by (simp add: parameter_changed_callback_def)
next
  case False
  then have l: "length ''root.dockerdwrapperwithcompose.'' \<le> length name" by simp
  let ?s1 = "note_changes (drop (length ''root.dockerdwrapperwithcompose.'') name) val s"
  from parameter_changed_callback_result [OF l, of w val s]
  obtain stopped s2 where r: "stop_dockerd w ?s1 = Inr (stopped, s2)"
    "parameter_changed_callback w name val s =
       Inr (if stopped then s2
            else (syslog LOG_ERR
                    (''Failed to stop dockerd process. Please restart the acap '' @ ''manually.'')
                    [] s2)\<lparr>exit_code := -1\<rparr>)"
    by blast
  from stop_dockerd_result [of w ?s1] r(1)
  have "exit_code s2 = exit_code s \<or> exit_code s2 = -1" by auto
  then show ?thesis using assms r(2) by (auto split: if_splits)
qed

lemma dispatch_exit_code:
  assumes "dispatch w ev s = Inr s'"
  shows "exit_code s' = exit_code s \<or> exit_code s' = -1"
proof (cases ev)
  case (ChildExited pid status)
  then show ?thesis
    using assms callback_result [of w pid status s] by (auto simp add: dispatch_def)
next
  case (ParameterChanged name val)
  then show ?thesis
    using assms parameter_changed_callback_exit_code [of w name val s s']
    by (simp add: dispatch_def)
next
  case (SignalReceived g)
  then show ?thesis using assms by (auto simp add: dispatch_def)
qed

lemma loop_states_chain: "exit_code_chain (exit_code s) (loop_states evs s)"
proof (induction evs arbitrary: s)
  case Nil
  then show ?case by simp
next
  case (Cons e evs)
  obtain ev w where e: "e = (ev, w)" by (cases e)
  show ?case
  proof (cases "dispatch w ev s")
    case (Inl f)
    then show ?thesis using e by simp
  next
    case (Inr s1)
    then show ?thesis
      using e dispatch_exit_code [OF Inr] Cons.IH [of s1] by simp
  qed
qed

lemma main_loop_iterate_last:
  "main_loop_iterate evs s = Inr s' \<Longrightarrow> loop_states evs s \<noteq> [] \<and> last (loop_states evs s) = s'"
proof (induction evs arbitrary: s)
  case Nil
  then show ?case by simp
next
  case (Cons e evs)
  obtain ev w where e: "e = (ev, w)" by (cases e)
  show ?case
  proof (cases "dispatch w ev s")
    case (Inl f)
    then show ?thesis using e Cons.prems by simp
  next
    case (Inr s1)
    show ?thesis
    proof (cases "loop_quit s1")
      case True
      then show ?thesis using e Inr Cons.prems by simp
    next
      case False
      then have "main_loop_iterate evs s1 = Inr s'"
        using e Inr Cons.prems by simp
      from Cons.IH [OF this] show ?thesis using e Inr False by simp
    qed
  qed
qed

lemma exit_code_chain_append:
  "exit_code_chain c (xs @ ys) \<longleftrightarrow>
     exit_code_chain c xs \<and> exit_code_chain (if xs = [] then c else exit_code (last xs)) ys"
  by (induction xs arbitrary: c) auto

lemma exit_code_chain_values:
  "exit_code_chain c ss \<Longrightarrow> s \<in> set ss \<Longrightarrow> exit_code s = c \<or> exit_code s = -1"
  by (induction ss arbitrary: c) auto

lemma exit_code_chain_sticky:
  "exit_code_chain (-1) ss \<Longrightarrow> s \<in> set ss \<Longrightarrow> exit_code s = -1"
  using exit_code_chain_values by blast

lemma exit_code_chain_mono:
  "exit_code_chain c ss \<Longrightarrow> i \<le> j \<Longrightarrow> j < length ss \<Longrightarrow> exit_code (ss ! i) = -1 \<Longrightarrow>
   exit_code (ss ! j) = -1"
proof (induction ss arbitrary: c i j)
  case Nil
  then show ?case by simp
next
  case (Cons s ss)
  show ?case
  proof (cases i)
    case 0
    then have a: "exit_code s = -1" using Cons.prems by simp
    show ?thesis
    proof (cases j)
      case 0
      then show ?thesis using a by simp
    next
      case (Suc j')
      then have "ss ! j' \<in> set ss" using Cons.prems by simp
      moreover have "exit_code_chain (-1) ss" using Cons.prems a by simp
      ultimately show ?thesis using Suc exit_code_chain_sticky by simp
    qed
  next
    case (Suc i')
    then obtain j' where j: "j = Suc j'" using Cons.prems by (cases j) simp_all
    have "exit_code (ss ! j') = -1"
      using Cons.IH [of "exit_code s" i' j'] Cons.prems Suc j by simp
    then show ?thesis using j by simp
  qed
qed

lemma exit_code_chain_last:
  assumes "exit_code_chain 0 ss" and "ss \<noteq> []"
  shows "(exit_code (last ss) \<noteq> 0) = (\<exists>s \<in> set ss. exit_code s = -1)"
proof
  assume "exit_code (last ss) \<noteq> 0"
  moreover have "last ss \<in> set ss" using assms(2) by simp
  ultimately show "\<exists>s \<in> set ss. exit_code s = -1"
    using exit_code_chain_values [OF assms(1)] by blast
next
  assume "\<exists>s \<in> set ss. exit_code s = -1"
  then obtain i where i: "i < length ss" "exit_code (ss ! i) = -1"
    by (auto simp add: in_set_conv_nth)
  have "exit_code (ss ! (length ss - 1)) = -1"
    using exit_code_chain_mono [OF assms(1) _ _ i(2), of "length ss - 1"] i(1) by simp
  then show "exit_code (last ss) \<noteq> 0"
    using assms(2) by (simp add: last_conv_nth)
qed

lemma register_callbacks_exit_code:
  "exit_code (snd (register_callbacks w ps s)) = exit_code s"
  by (induction ps arbitrary: s) (simp_all add: Let_def)

lemma setup_axparameter_exit_code:
  "exit_code (snd (setup_axparameter w s)) = exit_code s"
  by (simp add: setup_axparameter_def register_callbacks_exit_code)

lemma main_start_exit_code: "exit_code (main_start w) = 0"
  by (simp add: main_start_def init_signals_def initial_state_def)

lemma unregister_callbacks_exit_code:
  "exit_code (unregister_callbacks s) = exit_code s"
  by (simp add: unregister_callbacks_def ax_parameters_def)

lemma main_end_result:
  "\<exists>s'. main_end w b s = Inr (exit_code s', s') \<and> end_states w b s = [s'] \<and>
        (exit_code s' = exit_code s \<or> exit_code s' = -1)"
proof -
  obtain stopped s1 where r: "stop_dockerd w s = Inr (stopped, s1)"
    "exit_code s1 = exit_code s \<or> exit_code s1 = -1"
    using stop_dockerd_result [of w s] by blast
  define s2 where "s2 = (if stopped
                    then syslog LOG_INFO ''Shutting down. dockerd shut down successfully.'' [] s1
                    else syslog LOG_WARNING ''Shutting down. Failed to shut down dockerd.'' [] s1)"
  define s3 where "s3 = (if b then unregister_callbacks s2 else s2)"
  have e: "exit_code s3 = exit_code s1"
    by (simp add: s3_def s2_def unregister_callbacks_exit_code)
  have m: "main_end w b s = Inr (exit_code s3, s3)"
    using r(1) unfolding main_end_def Let_def s3_def s2_def by simp
  then have "end_states w b s = [s3]" by (simp add: end_states_def)
  then show ?thesis using m e r(2) by auto
qed

lemma main_states_result:
  assumes "main w evs w_end = Inr (r, s')"
  shows "main_states w evs w_end \<noteq> [] \<and> hd (main_states w evs w_end) = main_start w \<and>
         last (main_states w evs w_end) = s' \<and> r = exit_code s' \<and>
         exit_code_chain 0 (main_states w evs w_end)"
proof -
  define s0 where "s0 = main_start w"
  define ax where "ax = fst (setup_axparameter w s0)"
  define s1 where "s1 = snd (setup_axparameter w s0)"
  have e0: "exit_code s0 = 0" by (simp add: s0_def main_start_exit_code)
  have e1: "exit_code s1 = 0" using e0 by (simp add: s1_def setup_axparameter_exit_code)
  show ?thesis
  proof (cases ax)
    case False
    define s2 where "s2 = (syslog LOG_ERR ''Error in setup_axparameter'' [] s1)\<lparr>exit_code := -1\<rparr>"
    have m: "main w evs w_end = main_end w_end False s2"
      using False unfolding main_def Let_def case_prod_beta s2_def s1_def ax_def s0_def by simp
    have ms: "main_states w evs w_end = [s0, s2] @ end_states w_end False s2"
      using False unfolding main_states_def Let_def case_prod_beta s2_def s1_def ax_def s0_def
      by simp
    obtain s3 where r: "main_end w_end False s2 = Inr (exit_code s3, s3)"
      "end_states w_end False s2 = [s3]" "exit_code s3 = exit_code s2 \<or> exit_code s3 = -1"
      using main_end_result by blast
    have "s' = s3" "r = exit_code s3" using assms m r(1) by auto
    then show ?thesis using ms r(2,3) e0 by (simp add: s2_def s0_def)
  next
    case True
    have m: "main w evs w_end =
        (case read_settings_and_start_dockerd w s1 of
              Inl f \<Rightarrow> Inl f
            | Inr (started, s2) \<Rightarrow>
                if \<not> started then main_end w_end True (s2\<lparr>exit_code := -1\<rparr>)
                else
                  (case g_main_loop_run evs s2 of
                     Inl f \<Rightarrow> Inl f
                   | Inr s3 \<Rightarrow> main_end w_end True s3))"
      using True unfolding main_def Let_def case_prod_beta s1_def ax_def s0_def by simp
    have ms: "main_states w evs w_end =
        (case read_settings_and_start_dockerd w s1 of
              Inl f \<Rightarrow> [s0, s1]
            | Inr (started, s2) \<Rightarrow>
                if \<not> started
                then [s0, s1, s2\<lparr>exit_code := -1\<rparr>] @ end_states w_end True (s2\<lparr>exit_code := -1\<rparr>)
                else [s0, s1, s2] @ loop_states evs (s2\<lparr>loop_quit := False\<rparr>) @
                     (case g_main_loop_run evs s2 of
                        Inl f \<Rightarrow> []
                      | Inr s3 \<Rightarrow> end_states w_end True s3))"
      using True unfolding main_states_def Let_def case_prod_beta s1_def ax_def s0_def by simp
    obtain started s2 where st: "read_settings_and_start_dockerd w s1 = Inr (started, s2)"
      "exit_code s2 = exit_code s1 \<or> exit_code s2 = -1"
      using read_settings_and_start_dockerd_result [of w s1] by blast
    show ?thesis
    proof (cases started)
      case False
      obtain s3 where r: "main_end w_end True (s2\<lparr>exit_code := -1\<rparr>) = Inr (exit_code s3, s3)"
        "end_states w_end True (s2\<lparr>exit_code := -1\<rparr>) = [s3]"
        "exit_code s3 = exit_code (s2\<lparr>exit_code := -1\<rparr>) \<or> exit_code s3 = -1"
        using main_end_result by blast
      have "s' = s3" "r = exit_code s3" using assms m st(1) False r(1) by auto
      moreover have "main_states w evs w_end = [s0, s1, s2\<lparr>exit_code := -1\<rparr>, s3]"
        using ms st(1) False r(2) by simp
      ultimately show ?thesis using r(3) e0 e1 by (simp add: s0_def)
    next
      case True
      obtain s3 where l: "g_main_loop_run evs s2 = Inr s3"
        using assms m st(1) True by (cases "g_main_loop_run evs s2") simp_all
      define ls where "ls = loop_states evs (s2\<lparr>loop_quit := False\<rparr>)"
      have ll: "ls \<noteq> []" "last ls = s3"
        using main_loop_iterate_last [of evs "s2\<lparr>loop_quit := False\<rparr>" s3] l
        by (simp_all add: g_main_loop_run_def ls_def)
      have lc: "exit_code_chain (exit_code s2) ls"
        using loop_states_chain [of "s2\<lparr>loop_quit := False\<rparr>" evs] by (simp add: ls_def)
      obtain s4 where r: "main_end w_end True s3 = Inr (exit_code s4, s4)"
        "end_states w_end True s3 = [s4]"
        "exit_code s4 = exit_code s3 \<or> exit_code s4 = -1"
        using main_end_result by blast
      have f: "s' = s4" "r = exit_code s4" using assms m st(1) True l r(1) by auto
      have mss: "main_states w evs w_end = [s0, s1, s2] @ ls @ [s4]"
        using ms st(1) True l r(2) by (simp add: ls_def)
      have "exit_code_chain 0 ([s0, s1, s2] @ ls @ [s4])"
        using e0 e1 st(2) lc ll r(3) by (simp add: exit_code_chain_append)
      then show ?thesis using mss f by (simp add: s0_def)
    qed
  qed
qed


text \<open>
  Claim C10. The launch path, the exit callback and the parameter callback each leave
  the exit code as it was or set it to \<open>-1\<close>. In a run of \<open>main\<close> that returns \<open>r\<close>,
  the exit code is \<open>0\<close> in the first state; from one state of the run to the next it
  stays or becomes \<open>-1\<close>, so once it is \<open>-1\<close> it is \<open>-1\<close> in every later state;
  \<open>r\<close> is the exit code of the last state, it is \<open>0\<close> or \<open>-1\<close>, and it is not \<open>0\<close>
  exactly when the exit code is \<open>-1\<close> in some state of the run.
\<close>

theorem exit_code_monotone:
  "(read_settings_and_start_dockerd w s = Inr (ok, s1) \<longrightarrow>
      exit_code s1 = exit_code s \<or> exit_code s1 = -1) \<and>
   (dockerd_process_exited_callback w pid status s = Inr s2 \<longrightarrow>
      exit_code s2 = exit_code s \<or> exit_code s2 = -1) \<and>
   (parameter_changed_callback w name val s = Inr s3 \<longrightarrow>
      exit_code s3 = exit_code s \<or> exit_code s3 = -1) \<and>
   (main w0 evs w_end = Inr (r, s') \<longrightarrow>
      main_states w0 evs w_end \<noteq> [] \<and>
      exit_code (hd (main_states w0 evs w_end)) = 0 \<and>
      last (main_states w0 evs w_end) = s' \<and> r = exit_code s' \<and>
      exit_code_chain 0 (main_states w0 evs w_end) \<and>
      (\<forall>i j. i \<le> j \<longrightarrow> j < length (main_states w0 evs w_end) \<longrightarrow>
         exit_code (main_states w0 evs w_end ! i) = -1 \<longrightarrow>
         exit_code (main_states w0 evs w_end ! j) = -1) \<and>
      (r = 0 \<or> r = -1) \<and>
      (r \<noteq> 0 \<longleftrightarrow> (\<exists>x \<in> set (main_states w0 evs w_end). exit_code x = -1)))"
proof -
  have a: "read_settings_and_start_dockerd w s = Inr (ok, s1) \<longrightarrow>
      exit_code s1 = exit_code s \<or> exit_code s1 = -1"
    using read_settings_and_start_dockerd_result [of w s] by auto
  have b: "dockerd_process_exited_callback w pid status s = Inr s2 \<longrightarrow>
      exit_code s2 = exit_code s \<or> exit_code s2 = -1"
    using callback_result [of w pid status s] by auto
  have c: "parameter_changed_callback w name val s = Inr s3 \<longrightarrow>
      exit_code s3 = exit_code s \<or> exit_code s3 = -1"
    using parameter_changed_callback_exit_code by blast
  have d: "main w0 evs w_end = Inr (r, s') \<longrightarrow>
      main_states w0 evs w_end \<noteq> [] \<and>
      exit_code (hd (main_states w0 evs w_end)) = 0 \<and>
      last (main_states w0 evs w_end) = s' \<and> r = exit_code s' \<and>
      exit_code_chain 0 (main_states w0 evs w_end) \<and>
      (\<forall>i j. i \<le> j \<longrightarrow> j < length (main_states w0 evs w_end) \<longrightarrow>
         exit_code (main_states w0 evs w_end ! i) = -1 \<longrightarrow>
         exit_code (main_states w0 evs w_end ! j) = -1) \<and>
      (r = 0 \<or> r = -1) \<and>
      (r \<noteq> 0 \<longleftrightarrow> (\<exists>x \<in> set (main_states w0 evs w_end). exit_code x = -1))"
  proof
    assume m: "main w0 evs w_end = Inr (r, s')"
    define ms where "ms = main_states w0 evs w_end"
    from main_states_result [OF m]
    have h: "ms \<noteq> []" "hd ms = main_start w0" "last ms = s'" "r = exit_code s'"
      "exit_code_chain 0 ms"
      by (simp_all add: ms_def)
    have h0: "exit_code (hd ms) = 0" using h(2) by (simp add: main_start_exit_code)
    have mono: "\<forall>i j. i \<le> j \<longrightarrow> j < length ms \<longrightarrow> exit_code (ms ! i) = -1 \<longrightarrow>
         exit_code (ms ! j) = -1"
      using exit_code_chain_mono [OF h(5)] by blast
    have "last ms \<in> set ms" using h(1) by simp
    then have v: "r = 0 \<or> r = -1"
      using exit_code_chain_values [OF h(5)] h(3,4) by blast
    have i: "r \<noteq> 0 \<longleftrightarrow> (\<exists>x \<in> set ms. exit_code x = -1)"
      using exit_code_chain_last [OF h(5) h(1)] h(3,4) by simp
    show "main_states w0 evs w_end \<noteq> [] \<and>
      exit_code (hd (main_states w0 evs w_end)) = 0 \<and>
      last (main_states w0 evs w_end) = s' \<and> r = exit_code s' \<and>
      exit_code_chain 0 (main_states w0 evs w_end) \<and>
      (\<forall>i j. i \<le> j \<longrightarrow> j < length (main_states w0 evs w_end) \<longrightarrow>
         exit_code (main_states w0 evs w_end ! i) = -1 \<longrightarrow>
         exit_code (main_states w0 evs w_end ! j) = -1) \<and>
      (r = 0 \<or> r = -1) \<and>
      (r \<noteq> 0 \<longleftrightarrow> (\<exists>x \<in> set (main_states w0 evs w_end). exit_code x = -1))"
      using h h0 mono v i unfolding ms_def by blast
  qed
  show ?thesis using a b c d by blast
qed


lemma main_example:
  "(case main example_world example_events example_world of
      Inl f \<Rightarrow> False
    | Inr (r, s') \<Rightarrow> r = -1 \<and> exit_code s' = -1) \<and>
   map exit_code (main_states example_world example_events example_world) =
     [0, 0, 0, -1, -1, -1]"
  by code_simp

lemma exit_code_steps_example:
  "(case read_settings_and_start_dockerd unkillable_world running_state of
      Inl f \<Rightarrow> False
    | Inr (ok, s1) \<Rightarrow> ok \<and> exit_code s1 = 0) \<and>
   (case dockerd_process_exited_callback unkillable_world 100 9 running_state of
      Inl f \<Rightarrow> False
    | Inr s2 \<Rightarrow> exit_code s2 = -1) \<and>
   (case parameter_changed_callback unkillable_world ''root.dockerdwrapperwithcompose.UseTLS''
           ''yes'' running_state of
      Inl f \<Rightarrow> False
    | Inr s3 \<Rightarrow> exit_code s3 = -1)"
  by code_simp

theorem exit_code_monotone_witness:
  "(case read_settings_and_start_dockerd unkillable_world running_state of
      Inl f \<Rightarrow> False
    | Inr (ok, s1) \<Rightarrow> ok \<and> exit_code s1 = 0) \<and>
   (case dockerd_process_exited_callback unkillable_world 100 9 running_state of
      Inl f \<Rightarrow> False
    | Inr s2 \<Rightarrow> exit_code s2 = -1) \<and>
   (case parameter_changed_callback unkillable_world ''root.dockerdwrapperwithcompose.UseTLS''
           ''yes'' running_state of
      Inl f \<Rightarrow> False
    | Inr s3 \<Rightarrow> exit_code s3 = -1) \<and>
   (case main example_world example_events example_world of
      Inl f \<Rightarrow> False
    | Inr (r, s') \<Rightarrow> r = -1 \<and> exit_code s' = -1) \<and>
   map exit_code (main_states example_world example_events example_world) =
     [0, 0, 0, -1, -1, -1] \<and>
   (\<exists>x. x \<in> set (main_states example_world example_events example_world) \<and> exit_code x = -1)"
proof -
  obtain ok s1 where a: "read_settings_and_start_dockerd unkillable_world running_state = Inr (ok, s1)"
    using exit_code_steps_example
    by (cases "read_settings_and_start_dockerd unkillable_world running_state") auto
  obtain s2 where b: "dockerd_process_exited_callback unkillable_world 100 9 running_state = Inr s2"
    using exit_code_steps_example
    by (cases "dockerd_process_exited_callback unkillable_world 100 9 running_state") auto
  obtain s3 where c: "parameter_changed_callback unkillable_world
      ''root.dockerdwrapperwithcompose.UseTLS'' ''yes'' running_state = Inr s3"
    using exit_code_steps_example
    by (cases "parameter_changed_callback unkillable_world
          ''root.dockerdwrapperwithcompose.UseTLS'' ''yes'' running_state") auto
  obtain r s' where m: "main example_world example_events example_world = Inr (r, s')"
    "r = -1"
    using main_example
    by (cases "main example_world example_events example_world") auto
  have "r \<noteq> 0" using m(2) by simp
  then have "\<exists>x \<in> set (main_states example_world example_events example_world). exit_code x = -1"
    using a b c m(1)
      exit_code_monotone [of unkillable_world running_state ok s1 100 9 s2
        "''root.dockerdwrapperwithcompose.UseTLS''" "''yes''" s3
        example_world example_events example_world r s']
    by blast
  then show ?thesis using main_example exit_code_steps_example by blast
qed

end
